theory Spec2Isabelle
  imports Complex_Main "HOL-Library.Char_ord" "HOL-Library.List_Lexorder"
begin

section \<open>Numbers of the host language\<close>

text \<open>
  The benchmark page is TypeScript; every numeric value in it is an ECMAScript Number,
  an IEEE 754 binary64 value. A Number is modelled as a real (the value of a finite
  binary64 number), the not-a-number value, or one of the two infinities. Every
  arithmetic operation rounds its exact result to binary64, to nearest with ties to the
  even significand, and overflows to an infinity. Division by zero, the square root of a
  negative value and operations on the non-finite values follow the language: \<open>0/0\<close> is
  \<open>NaN\<close>, \<open>x/0\<close> is an infinity, and \<open>NaN\<close> propagates. The sign of zero is not
  modelled; the only operation of the page it could affect is a division by a negative
  zero, and the page divides by array lengths only.
\<close>

datatype number = Num real | NaN | PInf | NInf

definition signed_inf :: "bool \<Rightarrow> number" where
  "signed_inf positive = (if positive then PInf else NInf)"

subsection \<open>Rounding to binary64\<close>

text \<open>
  A finite binary64 value is \<open>m * 2^e\<close> for an integer significand \<open>m\<close> of magnitude below
  \<open>2^53\<close> and an exponent \<open>e\<close> from \<open>-1074\<close> to \<open>971\<close>. \<open>normalise\<close> scales a positive real
  into that form: it halves while the significand is \<open>2^53\<close> or more and doubles while it
  is below \<open>2^52\<close> and the exponent is above \<open>-1074\<close> (below that the value is
  subnormal). The fuel bounds the number of steps; it runs out only on values so large
  that they overflow whatever the significand. \<open>round_half_even\<close> rounds the scaled
  significand to an integer, a tie to the even one. \<open>fl64\<close> is the rounding with an
  unbounded exponent range above, \<open>round64\<close> adds the overflow to an infinity.
\<close>

definition pow2 :: "int \<Rightarrow> real" where
  "pow2 e = (if 0 \<le> e then 2 ^ nat e else 1 / 2 ^ nat (- e))"

definition round_half_even :: "real \<Rightarrow> int" where
  "round_half_even m =
     (let f = \<lfloor>m\<rfloor>; d = m - of_int f
      in if d < 1 / 2 then f else if 1 / 2 < d then f + 1 else if even f then f else f + 1)"

fun normalise :: "nat \<Rightarrow> real \<Rightarrow> int \<Rightarrow> real \<times> int" where
  "normalise 0 m e = (m, e)"
| "normalise (Suc fuel) m e =
     (if 2 ^ 53 \<le> m then normalise fuel (m / 2) (e + 1)
      else if m < 2 ^ 52 \<and> - 1074 < e then normalise fuel (2 * m) (e - 1)
      else (m, e))"

definition fl64 :: "real \<Rightarrow> real" where
  "fl64 x =
     (if x = 0 then 0
      else case normalise 2200 \<bar>x\<bar> 0 of
             (m, e) \<Rightarrow> sgn x * of_int (round_half_even m) * pow2 e)"

definition round64 :: "real \<Rightarrow> number" where
  "round64 x = (let y = fl64 x in if 2 ^ 1024 \<le> \<bar>y\<bar> then signed_inf (0 < y) else Num y)"

subsection \<open>Arithmetic\<close>

text \<open>
  \<open>Math.sqrt\<close> is taken to be the correctly rounded square root, as the engines
  compute it; the language leaves its precision to the implementation.
\<close>

fun num_neg :: "number \<Rightarrow> number" where
  "num_neg (Num a) = Num (- a)"
| "num_neg NaN = NaN"
| "num_neg PInf = NInf"
| "num_neg NInf = PInf"

fun num_add :: "number \<Rightarrow> number \<Rightarrow> number" where
  "num_add (Num a) (Num b) = round64 (a + b)"
| "num_add NaN _ = NaN"
| "num_add _ NaN = NaN"
| "num_add PInf NInf = NaN"
| "num_add NInf PInf = NaN"
| "num_add PInf _ = PInf"
| "num_add NInf _ = NInf"
| "num_add _ PInf = PInf"
| "num_add _ NInf = NInf"

definition num_sub :: "number \<Rightarrow> number \<Rightarrow> number" where
  "num_sub x y = num_add x (num_neg y)"

fun num_mul :: "number \<Rightarrow> number \<Rightarrow> number" where
  "num_mul (Num a) (Num b) = round64 (a * b)"
| "num_mul NaN _ = NaN"
| "num_mul _ NaN = NaN"
| "num_mul (Num a) PInf = (if a = 0 then NaN else signed_inf (0 < a))"
| "num_mul (Num a) NInf = (if a = 0 then NaN else signed_inf (a < 0))"
| "num_mul PInf (Num b) = (if b = 0 then NaN else signed_inf (0 < b))"
| "num_mul NInf (Num b) = (if b = 0 then NaN else signed_inf (b < 0))"
| "num_mul PInf PInf = PInf"
| "num_mul PInf NInf = NInf"
| "num_mul NInf PInf = NInf"
| "num_mul NInf NInf = PInf"

fun num_div :: "number \<Rightarrow> number \<Rightarrow> number" where
  "num_div (Num a) (Num b) =
     (if b = 0 then (if a = 0 then NaN else signed_inf (0 < a)) else round64 (a / b))"
| "num_div NaN _ = NaN"
| "num_div _ NaN = NaN"
| "num_div (Num a) PInf = Num 0"
| "num_div (Num a) NInf = Num 0"
| "num_div PInf (Num b) = signed_inf (0 \<le> b)"
| "num_div NInf (Num b) = signed_inf (b < 0)"
| "num_div PInf _ = NaN"
| "num_div NInf _ = NaN"

fun num_sqrt :: "number \<Rightarrow> number" where
  "num_sqrt (Num a) = (if a < 0 then NaN else round64 (sqrt a))"
| "num_sqrt NaN = NaN"
| "num_sqrt PInf = PInf"
| "num_sqrt NInf = NaN"

fun num_less :: "number \<Rightarrow> number \<Rightarrow> bool" where
  "num_less (Num a) (Num b) = (a < b)"
| "num_less NaN _ = False"
| "num_less _ NaN = False"
| "num_less PInf _ = False"
| "num_less _ PInf = True"
| "num_less _ NInf = False"
| "num_less NInf _ = True"

fun isNaN :: "number \<Rightarrow> bool" where
  "isNaN NaN = True"
| "isNaN _ = False"

subsection \<open>Conversion of numbers to strings\<close>

text \<open>
  \<open>Array.prototype.sort\<close> without a comparison function and template literals convert a
  Number with the language's \<open>Number::toString\<close>. On the non-finite values its result is
  fixed; on finite values it is the shortest decimal that reads back as the same binary64
  value. The conversion of finite values is an argument \<open>ts\<close> of every function that
  needs it.
\<close>

fun number_toString :: "(real \<Rightarrow> string) \<Rightarrow> number \<Rightarrow> string" where
  "number_toString ts (Num a) = ts a"
| "number_toString ts NaN = ''NaN''"
| "number_toString ts PInf = ''Infinity''"
| "number_toString ts NInf = ''-Infinity''"

text \<open>
  For an integer of magnitude below \<open>10^21\<close> the language's conversion is the decimal
  numeral, with a leading minus sign for a negative value. \<open>toString_integer\<close> is that
  conversion; it is the host's conversion on integer values only.
\<close>

definition digit_char :: "nat \<Rightarrow> char" where
  "digit_char d = ''0123456789'' ! d"

function decimal :: "nat \<Rightarrow> string" where
  "decimal n = (if n < 10 then [digit_char n] else decimal (n div 10) @ [digit_char (n mod 10)])"
  by pat_completeness auto
termination
  by (relation "measure id") auto

declare decimal.simps [simp del]

definition toString_integer :: "real \<Rightarrow> string" where
  "toString_integer x =
     (if x < 0 then CHR ''-'' # decimal (nat \<lfloor>- x\<rfloor>) else decimal (nat \<lfloor>x\<rfloor>))"



section \<open>The benchmark runner\<close>

subsection \<open>Summary and summarize\<close>

text \<open>
  \<open>interface Summary { name, mean, std, results }\<close>. The field names carry a prefix
  because the runner object has fields \<open>name\<close> and \<open>results\<close> of its own.
\<close>

record Summary =
  summary_name :: string
  summary_mean :: number
  summary_std :: number
  summary_results :: "real list"

text \<open>
  \<open>Array.prototype.shift\<close> removes the first element and is a no-op on an empty array.
\<close>

fun shift :: "'a list \<Rightarrow> 'a list" where
  "shift [] = []"
| "shift (x # xs) = xs"

text \<open>
  \<open>Array.prototype.sort()\<close> with no comparison function orders the elements by their
  string conversions, compared as sequences of code units; elements with equal strings
  keep their order.
\<close>

definition js_sort :: "(real \<Rightarrow> string) \<Rightarrow> real list \<Rightarrow> real list" where
  "js_sort ts xs = sort_key ts xs"

text \<open>
  The accumulator \<open>{sum, sum2}\<close> of the \<open>reduce\<close> call and its step; the fields carry a
  prefix because \<open>sum\<close> is a constant of the library. Both sums are binary64 sums, taken
  in the order of the array.
\<close>

record acc =
  acc_sum :: number
  acc_sum2 :: number

definition reduce_step :: "acc \<Rightarrow> real \<Rightarrow> acc" where
  "reduce_step d v =
     d\<lparr>acc_sum := num_add (acc_sum d) (Num v),
       acc_sum2 := num_add (acc_sum2 d) (num_mul (Num v) (Num v))\<rparr>"

definition reduce :: "real list \<Rightarrow> acc" where
  "reduce xs = foldl reduce_step \<lparr>acc_sum = Num 0, acc_sum2 = Num 0\<rparr> xs"

text \<open>
  \<open>BaseBenchmark.summarize\<close>, as a function of the object's name and its recorded
  samples. It returns the summary and the new value of \<open>this.results\<close>: \<open>shift\<close> and
  \<open>sort\<close> work in place, so the object keeps the shifted, sorted array, which is also
  the array the summary holds.
\<close>

definition summarize :: "(real \<Rightarrow> string) \<Rightarrow> string \<Rightarrow> real list \<Rightarrow> Summary \<times> real list" where
  "summarize ts nm recorded =
     (let results = js_sort ts (shift recorded);
          d = reduce results;
          len = Num (real (length results));
          mean = num_div (acc_sum d) len;
          std = num_sqrt (num_div (num_sub (acc_sum2 d) (num_mul (num_mul len mean) mean))
                                  (num_sub len (Num 1)))
      in (\<lparr>summary_name = nm, summary_mean = mean, summary_std = std,
           summary_results = results\<rparr>, results))"

subsection \<open>The statistics in the words of the specification\<close>




subsection \<open>Errors, completions and observable events\<close>

text \<open>
  An error value is an \<open>Error\<close> with its message or a \<open>TypeError\<close> raised by the
  language itself (a property read on \<open>null\<close> or \<open>undefined\<close>); the message of the
  latter depends on the browser and is not modelled.
\<close>

datatype error = Error string | TypeError

text \<open>
  How a call that is expected to return a promise ends: the promise is fulfilled, the
  promise is rejected, or the call throws before it returns any promise. An \<open>async\<close>
  function never ends the third way; a plain function can.
\<close>

datatype 'a completion = Resolved 'a | Rejected error | Thrown error

fun failure :: "'a completion \<Rightarrow> error option" where
  "failure (Resolved v) = None"
| "failure (Rejected e) = Some e"
| "failure (Thrown e) = Some e"

text \<open>
  The page is single-threaded and every step of the runner awaits the previous one, so
  a run is a sequence of events. \<open>console_log\<close> and \<open>console_error\<close> write their
  message to the console and append it to the \<open>message\<close> element; one event stands for
  both effects.
\<close>

datatype event =
    ConsoleLog string
  | ConsoleError error
  | SetupAsync
  | SetTimeout nat
  | PerformanceNow real
  | ExecuteSingleAsync
  | Push real
  | FinalizeAsync
  | Summarize

subsection \<open>The runner object and its variants\<close>

type_synonym handle = nat

text \<open>
  The fields each subclass adds. \<open>xs\<close> holds the length of the \<open>Float32Array\<close> bound
  to \<open>input_1\<close>; \<open>xs\<close> and \<open>y\<close> carry a suffix to keep them apart from variables.
\<close>

record WebDNN_fields =
  backend :: string
  flagOptimized :: bool
  runner :: "handle option"

record KerasJS_fields =
  flagGPU :: bool
  model :: "handle option"
  xs_field :: "nat option"

record DeepLearnJS_fields =
  flagUsingGPU :: bool
  session :: "handle option"
  feeds :: "handle option"
  math :: "handle option"
  y_field :: "handle option"

datatype engine =
    Base
  | WebDNN WebDNN_fields
  | KerasJS KerasJS_fields
  | DeepLearnJS DeepLearnJS_fields

text \<open>
  \<open>class BaseBenchmark\<close>; \<open>variant\<close> holds what the subclass adds. \<open>results\<close> has no
  initialiser in the source and is assigned by \<open>runAsync\<close> before it is ever read; the
  model starts it empty.
\<close>

record BaseBenchmark =
  name :: string
  summary :: "Summary option"
  numIteration :: number
  results :: "real list"
  variant :: engine

definition new_BaseBenchmark :: "string \<Rightarrow> BaseBenchmark" where
  "new_BaseBenchmark nm =
     \<lparr>name = nm, summary = None, numIteration = Num (- 1), results = [], variant = Base\<rparr>"

definition new_WebDNNBenchmark :: "string \<Rightarrow> string \<Rightarrow> bool \<Rightarrow> BaseBenchmark" where
  "new_WebDNNBenchmark nm be opt =
     (new_BaseBenchmark nm)
       \<lparr>variant := WebDNN \<lparr>backend = be, flagOptimized = opt, runner = None\<rparr>\<rparr>"

definition new_KerasJSBenchmark :: "string \<Rightarrow> bool \<Rightarrow> BaseBenchmark" where
  "new_KerasJSBenchmark nm gpu =
     (new_BaseBenchmark nm)
       \<lparr>variant := KerasJS \<lparr>flagGPU = gpu, model = None, xs_field = None\<rparr>\<rparr>"

definition new_DeepLearnJSBenchmark :: "string \<Rightarrow> bool \<Rightarrow> BaseBenchmark" where
  "new_DeepLearnJSBenchmark nm gpu =
     (new_BaseBenchmark nm)
       \<lparr>variant := DeepLearnJS \<lparr>flagUsingGPU = gpu, session = None, feeds = None,
                                math = None, y_field = None\<rparr>\<rparr>"

subsection \<open>The world outside the source file\<close>

text \<open>
  What the page reads from the browser, the form and the three inference libraries.
  \<^item> \<open>toString\<close>, \<open>toFixed2\<close>: the language's \<open>Number::toString\<close> and \<open>toFixed(2)\<close> on
    finite values.
  \<^item> \<open>iterations\<close>: the value of \<open>Number(document.forms['benchmark'].iterations.value)\<close>.
  \<^item> \<open>model_name_selection\<close>: the radio buttons of the model selector, each with its
    \<open>checked\<close> flag and its \<open>value\<close>.
  \<^item> \<open>mode_selection\<close>: the radio buttons of the variant selector, each with its
    \<open>checked\<close> flag and \<open>Number(value)\<close>.
  \<^item> \<open>tStart i\<close>, \<open>tEnd i\<close>: the readings of \<open>performance.now()\<close> before and after the
    execution of iteration \<open>i\<close>.
  \<^item> \<open>WebDNN_load url backendOrder\<close>: \<open>WebDNN.load\<close> rejects or yields a runner.
  \<^item> \<open>KerasJS_Model model weights metadata gpu\<close>: \<open>new KerasJS.Model\<close> throws or yields
    a model; \<open>Model_ready m\<close>: the promise of \<open>m.ready()\<close> rejects or is fulfilled.
  \<^item> \<open>deeplearn_build gpu\<close>: the construction of the graph, the math backend and the
    session throws or yields session, math, feeds and output tensor.
  \<^item> \<open>engine_run i\<close>: the inference call of iteration \<open>i\<close> fails or succeeds.
\<close>

record env =
  toString :: "real \<Rightarrow> string"
  toFixed2 :: "real \<Rightarrow> string"
  iterations :: number
  model_name_selection :: "(bool \<times> string) list"
  mode_selection :: "(bool \<times> number) list"
  tStart :: "nat \<Rightarrow> real"
  tEnd :: "nat \<Rightarrow> real"
  WebDNN_load :: "string \<Rightarrow> string list \<Rightarrow> error + handle"
  KerasJS_Model :: "string \<Rightarrow> string \<Rightarrow> string \<Rightarrow> bool \<Rightarrow> error + handle"
  Model_ready :: "handle \<Rightarrow> error option"
  deeplearn_build :: "bool \<Rightarrow> error + (handle \<times> handle \<times> handle \<times> handle)"
  engine_run :: "nat \<Rightarrow> error option"

text \<open>
  \<open>BaseBenchmark.getSelectedModel\<close>: the value of the last checked radio button,
  \<open>resnet50\<close> when none is checked. The second component is the message it passes to
  \<open>console_log\<close>.
\<close>

definition getSelectedModel :: "env \<Rightarrow> string \<times> string list" where
  "getSelectedModel env =
     (let model_name = foldl (\<lambda>m (checked, v). if checked then v else m) ''resnet50''
                             (model_name_selection env)
      in (model_name, [''Model: '' @ model_name]))"

subsection \<open>The hooks of the four classes\<close>

text \<open>
  The three methods a subclass overrides. \<open>h_setupAsync\<close> and \<open>h_finalizeAsync\<close> work on
  the fields of the subclass, and \<open>h_setupAsync\<close> also yields the messages it passes to
  \<open>console_log\<close>; \<open>h_executeSingleAsync i\<close> is the call made in iteration \<open>i\<close>.
\<close>

record hooks =
  h_setupAsync :: "engine \<Rightarrow> unit completion \<times> engine \<times> string list"
  h_executeSingleAsync :: "nat \<Rightarrow> engine \<Rightarrow> unit completion"
  h_finalizeAsync :: "engine \<Rightarrow> unit completion \<times> engine"

definition run_outcome :: "error option \<Rightarrow> unit completion" where
  "run_outcome r = (case r of None \<Rightarrow> Resolved () | Some e \<Rightarrow> Rejected e)"

text \<open>The URL and the backend order that \<open>WebDNNBenchmark.setupAsync\<close> passes to \<open>WebDNN.load\<close>.\<close>

definition WebDNN_load_url :: "string \<Rightarrow> bool \<Rightarrow> string" where
  "WebDNN_load_url model_name opt =
     ''./output/webdnn/'' @ model_name @ ''/'' @ (if opt then [] else ''non_'') @ ''optimized''"

definition WebDNN_backendOrder :: "WebDNN_fields \<Rightarrow> string list" where
  "WebDNN_backendOrder f = [backend f]"

definition WebDNNBenchmark_setupAsync ::
    "env \<Rightarrow> WebDNN_fields \<Rightarrow> unit completion \<times> WebDNN_fields \<times> string list" where
  "WebDNNBenchmark_setupAsync env f =
     (case getSelectedModel env of (model_name, msgs) \<Rightarrow>
        (case WebDNN_load env (WebDNN_load_url model_name (flagOptimized f))
                (WebDNN_backendOrder f) of
           Inl e \<Rightarrow> (Rejected e, f, msgs)
         | Inr r \<Rightarrow> (Resolved (), f\<lparr>runner := Some r\<rparr>, msgs)))"

definition WebDNNBenchmark_executeSingleAsync ::
    "env \<Rightarrow> nat \<Rightarrow> WebDNN_fields \<Rightarrow> unit completion" where
  "WebDNNBenchmark_executeSingleAsync env i f =
     (case runner f of None \<Rightarrow> Rejected TypeError | Some r \<Rightarrow> run_outcome (engine_run env i))"

definition WebDNNBenchmark_finalizeAsync :: "WebDNN_fields \<Rightarrow> unit completion \<times> WebDNN_fields" where
  "WebDNNBenchmark_finalizeAsync f = (Resolved (), f\<lparr>runner := None\<rparr>)"

text \<open>
  \<open>KerasJSBenchmark.setupAsync\<close> is not declared \<open>async\<close>: an exception of the
  constructor of the model leaves it as an exception, not as a rejected promise.
\<close>

definition KerasJSBenchmark_setupAsync ::
    "env \<Rightarrow> KerasJS_fields \<Rightarrow> unit completion \<times> KerasJS_fields \<times> string list" where
  "KerasJSBenchmark_setupAsync env f =
     (case getSelectedModel env of (modelName, msgs) \<Rightarrow>
        (let prefix = ''./output/kerasjs/'' @ modelName @ ''/model'' in
         case KerasJS_Model env (prefix @ ''.json'') (prefix @ ''_weights.buf'')
                (prefix @ ''_metadata.json'') (flagGPU f) of
           Inl e \<Rightarrow> (Thrown e, f, msgs)
         | Inr m \<Rightarrow>
             (let HW = (if modelName = ''inception_v3'' then 299 * 299 else 224 * 224);
                  f' = f\<lparr>model := Some m, xs_field := Some (HW * 3)\<rparr>
              in case Model_ready env m of
                   Some e \<Rightarrow> (Rejected e, f', msgs)
                 | None \<Rightarrow> (Resolved (), f', msgs))))"

definition KerasJSBenchmark_executeSingleAsync ::
    "env \<Rightarrow> nat \<Rightarrow> KerasJS_fields \<Rightarrow> unit completion" where
  "KerasJSBenchmark_executeSingleAsync env i f =
     (case model f of None \<Rightarrow> Rejected TypeError | Some m \<Rightarrow> run_outcome (engine_run env i))"

definition KerasJSBenchmark_finalizeAsync :: "KerasJS_fields \<Rightarrow> unit completion \<times> KerasJS_fields" where
  "KerasJSBenchmark_finalizeAsync f = (Resolved (), f\<lparr>model := None, xs_field := None\<rparr>)"

definition DeepLearnJSBenchmark_setupAsync ::
    "env \<Rightarrow> DeepLearnJS_fields \<Rightarrow> unit completion \<times> DeepLearnJS_fields \<times> string list" where
  "DeepLearnJSBenchmark_setupAsync env f =
     (case getSelectedModel env of (model_name, msgs) \<Rightarrow>
        if model_name \<noteq> ''resnet50''
        then (Rejected (Error ''Only ResNet50 is supported in benchmark of deeplearn.js''), f, msgs)
        else (case deeplearn_build env (flagUsingGPU f) of
                Inl e \<Rightarrow> (Rejected e, f, msgs)
              | Inr (s, m, fd, out) \<Rightarrow>
                  (Resolved (),
                   f\<lparr>session := Some s, math := Some m, feeds := Some fd, y_field := Some out\<rparr>,
                   msgs)))"

definition DeepLearnJSBenchmark_executeSingleAsync ::
    "env \<Rightarrow> nat \<Rightarrow> DeepLearnJS_fields \<Rightarrow> unit completion" where
  "DeepLearnJSBenchmark_executeSingleAsync env i f =
     (if math f = None \<or> session f = None then Rejected TypeError
      else run_outcome (engine_run env i))"

definition DeepLearnJSBenchmark_finalizeAsync ::
    "DeepLearnJS_fields \<Rightarrow> unit completion \<times> DeepLearnJS_fields" where
  "DeepLearnJSBenchmark_finalizeAsync f =
     (Resolved (), f\<lparr>session := None, math := None, feeds := None, y_field := None\<rparr>)"

text \<open>
  Method dispatch: the class of the object, here the constructor of its \<open>variant\<close>,
  selects the method. The base class resolves \<open>setupAsync\<close> and \<open>finalizeAsync\<close> at once
  and rejects \<open>executeSingleAsync\<close> with \<open>Not Implemented\<close>.
\<close>

definition methods :: "env \<Rightarrow> hooks" where
  "methods env =
     \<lparr>h_setupAsync = (\<lambda>e. case e of
          Base \<Rightarrow> (Resolved (), Base, [])
        | WebDNN f \<Rightarrow>
            (case WebDNNBenchmark_setupAsync env f of (c, f', msgs) \<Rightarrow> (c, WebDNN f', msgs))
        | KerasJS f \<Rightarrow>
            (case KerasJSBenchmark_setupAsync env f of (c, f', msgs) \<Rightarrow> (c, KerasJS f', msgs))
        | DeepLearnJS f \<Rightarrow>
            (case DeepLearnJSBenchmark_setupAsync env f of (c, f', msgs) \<Rightarrow> (c, DeepLearnJS f', msgs))),
      h_executeSingleAsync = (\<lambda>i e. case e of
          Base \<Rightarrow> Rejected (Error ''Not Implemented'')
        | WebDNN f \<Rightarrow> WebDNNBenchmark_executeSingleAsync env i f
        | KerasJS f \<Rightarrow> KerasJSBenchmark_executeSingleAsync env i f
        | DeepLearnJS f \<Rightarrow> DeepLearnJSBenchmark_executeSingleAsync env i f),
      h_finalizeAsync = (\<lambda>e. case e of
          Base \<Rightarrow> (Resolved (), Base)
        | WebDNN f \<Rightarrow>
            (case WebDNNBenchmark_finalizeAsync f of (c, f') \<Rightarrow> (c, WebDNN f'))
        | KerasJS f \<Rightarrow>
            (case KerasJSBenchmark_finalizeAsync f of (c, f') \<Rightarrow> (c, KerasJS f'))
        | DeepLearnJS f \<Rightarrow>
            (case DeepLearnJSBenchmark_finalizeAsync f of (c, f') \<Rightarrow> (c, DeepLearnJS f')))\<rparr>"

text \<open>The engine handles of a variant are released when every handle field is \<open>null\<close>.\<close>

fun released :: "engine \<Rightarrow> bool" where
  "released Base = True"
| "released (WebDNN f) = (runner f = None)"
| "released (KerasJS f) = (model f = None \<and> xs_field f = None)"
| "released (DeepLearnJS f) =
     (session f = None \<and> math f = None \<and> feeds f = None \<and> y_field f = None)"

subsection \<open>The template method\<close>

text \<open>
  \<open>onExecuteSingle(i)\<close> logs \<open>name: i+1/numIteration\<close>.
\<close>

definition onExecuteSingle :: "env \<Rightarrow> BaseBenchmark \<Rightarrow> nat \<Rightarrow> event list" where
  "onExecuteSingle env this i =
     [ConsoleLog (name this @ '': '' @ toString env (real i + 1) @ ''/''
                  @ number_toString (toString env) (numIteration this))]"

text \<open>
  What one pass through the body of the loop of \<open>executeAsync\<close> does up to and including
  the call of the hook, and what it does after the hook has succeeded. The elapsed time
  is the binary64 difference of the two readings of the clock; the readings are finite
  and not negative, so the difference does not overflow.
\<close>

definition iteration_begin :: "env \<Rightarrow> BaseBenchmark \<Rightarrow> nat \<Rightarrow> event list" where
  "iteration_begin env this i =
     onExecuteSingle env this i @ [SetTimeout 1000, PerformanceNow (tStart env i), ExecuteSingleAsync]"

definition elapsedTime :: "env \<Rightarrow> nat \<Rightarrow> real" where
  "elapsedTime env i = fl64 (tEnd env i - tStart env i)"

definition iteration_end :: "env \<Rightarrow> nat \<Rightarrow> event list" where
  "iteration_end env i = [PerformanceNow (tEnd env i), Push (elapsedTime env i)]"

text \<open>
  The loop of \<open>executeAsync\<close>, from counter \<open>i\<close> on, with the events emitted so far. The
  counter is compared with \<open>this.numIteration\<close> as a Number: the loop does not end when
  that is \<open>Infinity\<close> and no execution fails, hence the result is an option and \<open>None\<close>
  stands for a run that never settles. An exception or rejection of the hook rejects
  the promise of \<open>executeAsync\<close>. The counter itself is a natural number: a binary64
  counter counts without rounding up to \<open>2^53\<close>, more passes than a loop with a pause of
  one second in each can make.
\<close>

partial_function (option) executeAsync_loop ::
    "hooks \<Rightarrow> env \<Rightarrow> nat \<Rightarrow> BaseBenchmark \<Rightarrow> event list
       \<Rightarrow> (unit completion \<times> BaseBenchmark \<times> event list) option" where
  "executeAsync_loop h env i this tr =
     (if num_less (Num (real i)) (numIteration this) then
        (case failure (h_executeSingleAsync h i (variant this)) of
           Some e \<Rightarrow> Some (Rejected e, this, tr @ iteration_begin env this i)
         | None \<Rightarrow>
             executeAsync_loop h env (Suc i)
               (this\<lparr>results := results this @ [elapsedTime env i]\<rparr>)
               (tr @ iteration_begin env this i @ iteration_end env i))
      else Some (Resolved (), this, tr))"

definition executeAsync ::
    "hooks \<Rightarrow> env \<Rightarrow> BaseBenchmark \<Rightarrow> (unit completion \<times> BaseBenchmark \<times> event list) option" where
  "executeAsync h env this = executeAsync_loop h env 0 this []"

text \<open>
  \<open>runAsync\<close>. The chain \<open>setupAsync().then(executeAsync).then(finalizeAsync).then(summarize)\<close>
  skips every later callback once a promise is rejected, and the final \<open>catch\<close> passes
  the error to \<open>console_error\<close> and fulfils the promise with \<open>undefined\<close> (\<open>None\<close>). An
  exception thrown by \<open>setupAsync\<close> itself occurs before the chain exists: it rejects
  the promise of \<open>runAsync\<close>, which is an \<open>async\<close> function.
\<close>

definition runAsync ::
    "hooks \<Rightarrow> env \<Rightarrow> number \<Rightarrow> BaseBenchmark
       \<Rightarrow> (Summary option completion \<times> BaseBenchmark \<times> event list) option" where
  "runAsync h env n this0 =
     (let this1 = this0\<lparr>numIteration := n, results := []\<rparr> in
      case h_setupAsync h (variant this1) of
        (Thrown e, v, msgs) \<Rightarrow> Some (Rejected e, this1\<lparr>variant := v\<rparr>, SetupAsync # map ConsoleLog msgs)
      | (Rejected e, v, msgs) \<Rightarrow>
          Some (Resolved None, this1\<lparr>variant := v\<rparr>, SetupAsync # map ConsoleLog msgs @ [ConsoleError e])
      | (Resolved u, v, msgs) \<Rightarrow>
          (case executeAsync h env (this1\<lparr>variant := v\<rparr>) of
             None \<Rightarrow> None
           | Some (c, this2, tr) \<Rightarrow>
               (case failure c of
                  Some e \<Rightarrow> Some (Resolved None, this2, SetupAsync # map ConsoleLog msgs @ tr @ [ConsoleError e])
                | None \<Rightarrow>
                    (case h_finalizeAsync h (variant this2) of (c', v') \<Rightarrow>
                       (case failure c' of
                          Some e \<Rightarrow>
                            Some (Resolved None, this2\<lparr>variant := v'\<rparr>,
                                  SetupAsync # map ConsoleLog msgs @ tr @ [FinalizeAsync, ConsoleError e])
                        | None \<Rightarrow>
                            (case summarize (toString env) (name this2) (results this2) of
                               (s, rs) \<Rightarrow>
                                 Some (Resolved (Some s),
                                       this2\<lparr>variant := v', results := rs, summary := Some s\<rparr>,
                                       SetupAsync # map ConsoleLog msgs @ tr @ [FinalizeAsync, Summarize])))))))"

subsection \<open>The page\<close>

text \<open>
  The handler of \<open>DOMContentLoaded\<close> fills the global list \<open>benchmarks\<close>; the two WebGL
  variants are added when the browser has \<open>WebGLRenderingContext\<close>.
\<close>

definition initial_benchmarks :: "bool \<Rightarrow> BaseBenchmark list" where
  "initial_benchmarks webgl =
     [new_WebDNNBenchmark ''WebDNN(WebGPU)'' ''webgpu'' False,
      new_WebDNNBenchmark ''WebDNN(WebGPU) + Optimize'' ''webgpu'' True,
      new_WebDNNBenchmark ''WebDNN(WebAssembly)'' ''webassembly'' False,
      new_WebDNNBenchmark ''WebDNN(WebAssembly) + Optimize'' ''webassembly'' True]
     @ (if webgl
        then [new_WebDNNBenchmark ''WebDNN(WebGL)'' ''webgl'' False,
              new_WebDNNBenchmark ''WebDNN(WebGL) + Optimize'' ''webgl'' True]
        else [])
     @ [new_KerasJSBenchmark ''Keras.js(CPU)'' False,
        new_KerasJSBenchmark ''Keras.js(GPU)'' True,
        new_DeepLearnJSBenchmark ''deeplearn.js(CPU)'' False,
        new_DeepLearnJSBenchmark ''deeplearn.js(GPU)'' True]"

text \<open>
  Reading \<open>benchmarks[benchmark_id]\<close>: an element when the Number is an index of the
  array, \<open>undefined\<close> (\<open>None\<close>) otherwise.
\<close>

definition array_index :: "'a list \<Rightarrow> number \<Rightarrow> nat option" where
  "array_index arr k =
     (case k of
        Num r \<Rightarrow> (if 0 \<le> r \<and> r = real_of_int \<lfloor>r\<rfloor> \<and> nat \<lfloor>r\<rfloor> < length arr
                   then Some (nat \<lfloor>r\<rfloor>) else None)
      | _ \<Rightarrow> None)"

text \<open>
  The iteration count and the index of the variant that \<open>run\<close> computes from the form:
  the entered number plus one, or five when that is not a number; the value of the last
  checked radio button, or zero.
\<close>

definition run_numIteration :: "env \<Rightarrow> number" where
  "run_numIteration env =
     (let numIteration = num_add (iterations env) (Num 1)
      in if isNaN numIteration then Num 5 else numIteration)"

definition run_benchmark_id :: "env \<Rightarrow> number" where
  "run_benchmark_id env =
     foldl (\<lambda>k (checked, v). if checked then v else k) (Num 0) (mode_selection env)"

definition summaryHandler :: "env \<Rightarrow> Summary option \<Rightarrow> event list completion" where
  "summaryHandler env r =
     (case r of
        None \<Rightarrow> Thrown TypeError
      | Some s \<Rightarrow>
          Resolved [ConsoleLog (summary_name s @ '' : ''
                      @ number_toString (toFixed2 env) (summary_mean s) @ ''+-''
                      @ number_toString (toFixed2 env) (summary_std s) @ ''ms'')])"

text \<open>
  The promise chain that \<open>run\<close> starts for the selected variant:
  \<open>runAsync(numIteration).then(summaryHandler)\<close>, then the log of \<open>Benchmark end\<close>,
  then a \<open>catch\<close> that passes the first error to \<open>console_error\<close>. \<open>summaryHandler\<close>
  reads \<open>summary.name\<close> and so throws when the runner delivered \<open>undefined\<close>.
\<close>

definition run_promise_chain ::
    "hooks \<Rightarrow> env \<Rightarrow> number \<Rightarrow> BaseBenchmark \<Rightarrow> (BaseBenchmark \<times> event list) option" where
  "run_promise_chain h env n benchmark =
     (case runAsync h env n benchmark of
        None \<Rightarrow> None
      | Some (c, this, tr) \<Rightarrow>
          Some (this,
                tr @ (case c of
                        Resolved r \<Rightarrow>
                          (case summaryHandler env r of
                             Resolved line \<Rightarrow> line @ [ConsoleLog ''Benchmark end'']
                           | Rejected e \<Rightarrow> [ConsoleError e]
                           | Thrown e \<Rightarrow> [ConsoleError e])
                      | Rejected e \<Rightarrow> [ConsoleError e]
                      | Thrown e \<Rightarrow> [ConsoleError e])))"

text \<open>
  \<open>run\<close>, the click handler. It works on the global list and runs the selected
  variant. When the selected index has no element the read of \<open>benchmark.name\<close> throws
  out of the handler.
\<close>

definition run ::
    "env \<Rightarrow> BaseBenchmark list \<Rightarrow> (unit completion \<times> BaseBenchmark list \<times> event list) option" where
  "run env benchmarks =
     (let numIteration = run_numIteration env;
          benchmark_id = run_benchmark_id env
      in case array_index benchmarks benchmark_id of
           None \<Rightarrow> Some (Thrown TypeError, benchmarks, [])
         | Some k \<Rightarrow>
             (let benchmark = benchmarks ! k in
              case run_promise_chain (methods env) env numIteration benchmark of
                None \<Rightarrow> None
              | Some (this, tr) \<Rightarrow>
                  Some (Resolved (), benchmarks[k := this],
                        ConsoleLog (''Benchmark '' @ name benchmark @ '' start'') # tr)))"

subsection \<open>Vocabulary for the properties\<close>

text \<open>The events of one complete pass through the loop of \<open>executeAsync\<close>.\<close>

definition iteration_events :: "env \<Rightarrow> BaseBenchmark \<Rightarrow> nat \<Rightarrow> event list" where
  "iteration_events env this i = iteration_begin env this i @ iteration_end env i"

text \<open>The events that are readings of the clock.\<close>

fun timestamp :: "event \<Rightarrow> bool" where
  "timestamp (PerformanceNow t) = True"
| "timestamp _ = False"

subsection \<open>Example worlds\<close>

text \<open>
  \<open>toFixed(2)\<close> of an integer is its decimal numeral followed by two zero decimals.
\<close>

definition toFixed2_integer :: "real \<Rightarrow> string" where
  "toFixed2_integer x = toString_integer x @ ''.00''"

text \<open>
  A page on a browser with a clock of whole milliseconds: the user asks for three
  iterations of the first variant on \<open>resnet50\<close>, every library call succeeds, and the four
  executions take 50, 10, 9 and 100 milliseconds.
\<close>

definition page_env :: env where
  "page_env =
     \<lparr>toString = toString_integer,
      toFixed2 = toFixed2_integer,
      iterations = Num 3,
      model_name_selection = [(True, ''resnet50''), (False, ''vgg16''), (False, ''inception_v3'')],
      mode_selection = [(True, Num 0), (False, Num 1), (False, Num 2), (False, Num 3),
                        (False, Num 4), (False, Num 5), (False, Num 6), (False, Num 7),
                        (False, Num 8), (False, Num 9)],
      tStart = (\<lambda>i. 2000 * real i + 1000),
      tEnd = (\<lambda>i. 2000 * real i + 1000
                  + (if i = 0 then 50 else if i = 1 then 10 else if i = 2 then 9 else 100)),
      WebDNN_load = (\<lambda>url order. Inr 1),
      KerasJS_Model = (\<lambda>m w d gpu. Inr 2),
      Model_ready = (\<lambda>m. None),
      deeplearn_build = (\<lambda>gpu. Inr (3, 4, 5, 6)),
      engine_run = (\<lambda>i. None)\<rparr>"

text \<open>The same page when the second inference call fails.\<close>

definition failing_run_env :: env where
  "failing_run_env =
     page_env\<lparr>engine_run := (\<lambda>i. if i = 1 then Some (Error ''device lost'') else None)\<rparr>"

text \<open>The same page when the model artifact cannot be loaded.\<close>

definition failing_load_env :: env where
  "failing_load_env = page_env\<lparr>WebDNN_load := (\<lambda>url order. Inl (Error ''404''))\<rparr>"

text \<open>The same page when the constructor \<open>KerasJS.Model\<close> throws.\<close>

definition keras_throw_env :: env where
  "keras_throw_env = page_env\<lparr>KerasJS_Model := (\<lambda>m w d gpu. Inl TypeError)\<rparr>"

text \<open>The same page with \<open>vgg16\<close> selected.\<close>

definition vgg16_env :: env where
  "vgg16_env =
     page_env\<lparr>model_name_selection :=
                [(False, ''resnet50''), (True, ''vgg16''), (False, ''inception_v3'')]\<rparr>"

text \<open>
  The same page when the text entered for the number of iterations is not a numeral, such
  as \<open>abc\<close>.
\<close>

definition unparsable_iterations_env :: env where
  "unparsable_iterations_env = page_env\<lparr>iterations := NaN\<rparr>"

text \<open>
  The same page with a loader that finds one artifact only: the optimized \<open>resnet50\<close> for
  the backend order \<open>webgl\<close>.
\<close>

definition probe_load_env :: env where
  "probe_load_env =
     page_env\<lparr>WebDNN_load :=
                (\<lambda>url order. if url = ''./output/webdnn/resnet50/optimized'' \<and> order = [''webgl'']
                              then Inr 1 else Inl (Error ''404''))\<rparr>"

text \<open>
  The same page when the number entered for the iterations is \<open>9007199254740992\<close>, which is
  \<open>2^53\<close>.
\<close>

definition large_iterations_env :: env where
  "large_iterations_env = page_env\<lparr>iterations := Num 9007199254740992\<rparr>"

text \<open>A subclass whose \<open>finalizeAsync\<close> rejects, otherwise like the classes of the page.\<close>

definition failing_finalize_hooks :: hooks where
  "failing_finalize_hooks =
     (methods page_env)\<lparr>h_finalizeAsync := (\<lambda>v. (Rejected (Error ''finalize failed''), v))\<rparr>"

section \<open>Properties of the rounding\<close>


lemma pow2_0 [simp]: "pow2 0 = 1"
  by (simp add: pow2_def)

lemma pow2_Suc: "pow2 (e + 1) = 2 * pow2 e"
proof (cases "0 \<le> e")
  case True
  then show ?thesis by (simp add: pow2_def nat_add_distrib)
next
  case False
  then obtain n where n: "nat (- e) = Suc n"
    by (cases "nat (- e)") auto
  then have "nat (- (e + 1)) = n" by linarith
  moreover have "0 \<le> e + 1 \<longleftrightarrow> n = 0" using n False by linarith
  ultimately show ?thesis
    using False n by (auto simp: pow2_def)
qed

lemma pow2_pred: "pow2 (e - 1) = pow2 e / 2"
  using pow2_Suc [of "e - 1"] by simp


lemma round_half_even_of_int [simp]: "round_half_even (of_int z) = z"
  by (simp add: round_half_even_def)



lemma normalise_value:
  "normalise fuel m e = (m', e') \<Longrightarrow> m' * pow2 e' = m * pow2 e"
  by (induction fuel arbitrary: m e)
     (auto simp: pow2_Suc pow2_pred split: if_splits)

lemma normalise_Ints:
  "normalise fuel m e = (m', e') \<Longrightarrow> m \<in> \<int> \<Longrightarrow> 0 < m \<Longrightarrow> m \<le> 2 ^ 53 \<Longrightarrow> m' \<in> \<int>"
proof (induction fuel arbitrary: m e)
  case 0
  then show ?case by simp
next
  case (Suc fuel)
  show ?case
  proof (cases "2 ^ 53 \<le> m")
    case True
    with Suc.prems have m: "m = 2 ^ 53" by simp
    have "normalise fuel (m / 2) (e + 1) = (m', e')"
      using Suc.prems(1) True by simp
    moreover have "m / 2 = 2 ^ 52" using m by simp
    ultimately show ?thesis
      by (intro Suc.IH [of "m / 2" "e + 1"]) simp_all
  next
    case False
    show ?thesis
    proof (cases "m < 2 ^ 52 \<and> - 1074 < e")
      case True
      with False Suc.prems(1) have "normalise fuel (2 * m) (e - 1) = (m', e')" by simp
      moreover have "2 * m \<in> \<int>" using Suc.prems(2) by simp
      ultimately show ?thesis
        using True Suc.prems(3) by (intro Suc.IH [of "2 * m" "e - 1"]) simp_all
    next
      case F2: False
      with False Suc.prems show ?thesis by auto
    qed
  qed
qed


lemma fl64_Ints:
  assumes "x \<in> \<int>" and "\<bar>x\<bar> \<le> 2 ^ 53"
  shows "fl64 x = x"
proof (cases "x = 0")
  case True
  then show ?thesis by (simp add: fl64_def)
next
  case False
  obtain m e where n: "normalise 2200 \<bar>x\<bar> 0 = (m, e)"
    by (cases "normalise 2200 \<bar>x\<bar> 0")
  have ax: "\<bar>x\<bar> \<in> \<int>" using assms(1) by simp
  from normalise_Ints [OF n ax] False assms(2) have "m \<in> \<int>" by simp
  then obtain z where z: "m = of_int z" by (auto elim: Ints_cases)
  from normalise_value [OF n] have "m * pow2 e = \<bar>x\<bar>" by simp
  then have "sgn x * of_int (round_half_even m) * pow2 e = sgn x * \<bar>x\<bar>"
    by (simp add: z mult.assoc)
  then show ?thesis
    using False n by (simp add: fl64_def sgn_mult_abs)
qed

lemma fl64_of_nat: "n \<le> 2 ^ 53 \<Longrightarrow> fl64 (real n) = real n"
proof -
  assume "n \<le> 2 ^ 53"
  then have "real n \<le> 2 ^ 53"
    by (metis of_nat_le_iff of_nat_numeral of_nat_power)
  then show ?thesis by (intro fl64_Ints) simp_all
qed



lemma round64_Ints:
  assumes "x \<in> \<int>" and "\<bar>x\<bar> \<le> 2 ^ 53"
  shows "round64 x = Num x"
proof -
  have "\<bar>x\<bar> < (2::real) ^ 1024"
    using assms(2) by (rule le_less_trans) simp
  then show ?thesis
    by (simp add: round64_def Let_def fl64_Ints [OF assms])
qed


lemma normalise_down:
  "2 ^ 52 \<le> m / 2 ^ k \<Longrightarrow> m / 2 ^ k < 2 ^ 53 \<Longrightarrow> k \<le> fuel \<Longrightarrow>
   normalise fuel m e = (m / 2 ^ k, e + int k)"
proof (induction k arbitrary: fuel m e)
  case 0
  then show ?case by (cases fuel) simp_all
next
  case (Suc k)
  then obtain f where f: "fuel = Suc f" by (cases fuel) simp_all
  have m: "2 ^ 53 \<le> m"
  proof -
    have "(2::real) ^ 52 * 2 ^ Suc k \<le> m" using Suc.prems(1) by (simp add: field_simps)
    moreover have "(2::real) ^ 53 \<le> 2 ^ 52 * 2 ^ Suc k" by simp
    ultimately show ?thesis by linarith
  qed
  have "normalise f (m / 2) (e + 1) = (m / 2 / 2 ^ k, e + 1 + int k)"
    using Suc.prems f by (intro Suc.IH) simp_all
  with m f show ?case by simp
qed



lemma fl64_down:
  assumes "k \<le> 2200" and "2 ^ 52 \<le> a / 2 ^ k" and "a / 2 ^ k < 2 ^ 53"
  shows "fl64 a = of_int (round_half_even (a / 2 ^ k)) * 2 ^ k"
proof -
  have pos: "0 < a"
  proof -
    have "(0::real) < 2 ^ 52" by simp
    with assms(2) have "0 < a / 2 ^ k" by linarith
    then show ?thesis by (simp add: zero_less_divide_iff)
  qed
  have "normalise 2200 \<bar>a\<bar> 0 = (\<bar>a\<bar> / 2 ^ k, 0 + int k)"
    using assms pos by (intro normalise_down) simp_all
  moreover have "pow2 (int k) = 2 ^ k"
    by (simp add: pow2_def)
  ultimately show ?thesis
    using pos by (simp add: fl64_def)
qed


lemma fl64_numeral [simp]: "numeral w \<le> (2::real) ^ 53 \<Longrightarrow> fl64 (numeral w) = numeral w"
  by (intro fl64_Ints) simp_all

lemma fl64_zero [simp]: "fl64 0 = 0"
  by (simp add: fl64_def)

section \<open>Properties of summarize\<close>




lemma length_js_sort: "length (js_sort ts xs) = length xs"
  by (simp add: js_sort_def)









lemma Nats_nonneg: "x \<in> \<nat> \<Longrightarrow> 0 \<le> (x :: real)"
  by (auto elim: Nats_cases)



lemma round64_Nats: "x \<in> \<nat> \<Longrightarrow> x \<le> 2 ^ 53 \<Longrightarrow> round64 x = Num x"
  using Nats_nonneg [of x] by (intro round64_Ints) (auto elim: Nats_cases)




lemma summarize_results:
  "summarize ts nm recorded = (s, rs) \<Longrightarrow>
     summary_results s = js_sort ts (shift recorded) \<and> rs = js_sort ts (shift recorded)"
  by (auto simp: summarize_def Let_def)

lemma length_shift: "length (shift ys) = length ys - 1"
  by (cases ys) simp_all




text \<open>
  C4. The claim is that the samples of the summary are the recorded samples without the
  first, in ascending numeric order. \<open>summarize\<close> does drop the first sample, but it
  calls \<open>sort\<close> with no comparison function, which orders Numbers by their decimal
  strings. On the recorded samples \<open>50, 10, 9, 100\<close> (whole milliseconds) the summary
  holds \<open>10, 100, 9\<close>, which is not ascending.
\<close>

theorem summarize_orders_samples_as_strings:
  "summary_results (fst (summarize toString_integer ''WebDNN(WebGPU)'' [50, 10, 9, 100]))
     = [10, 100, 9]
   \<and> \<not> sorted (summary_results
                  (fst (summarize toString_integer ''WebDNN(WebGPU)'' [50, 10, 9, 100])))"
proof -
  have "js_sort toString_integer [10, 9, 100] = [10, 100, 9]"
    by code_simp
  then have "summary_results (fst (summarize toString_integer ''WebDNN(WebGPU)'' [50, 10, 9, 100]))
     = [10, 100, 9]"
    by (simp add: summarize_def Let_def)
  then show ?thesis by simp
qed

section \<open>Properties of the runner\<close>

subsection \<open>The loop of executeAsync\<close>

lemma num_less_index_mono:
  "num_less (Num (real k)) n \<Longrightarrow> j \<le> k \<Longrightarrow> num_less (Num (real j)) n"
  by (cases n) simp_all

lemma iteration_begin_results [simp]:
  "iteration_begin env (this\<lparr>results := rs\<rparr>) i = iteration_begin env this i"
  by (simp add: iteration_begin_def onExecuteSingle_def)

lemma iteration_events_results [simp]:
  "iteration_events env (this\<lparr>results := rs\<rparr>) = iteration_events env this"
  by (rule ext) (simp add: iteration_events_def)

lemma executeAsync_loop_prefix:
  assumes "\<forall>j. i \<le> j \<and> j < k \<longrightarrow> failure (h_executeSingleAsync h j (variant this)) = None"
    and "i \<le> k"
    and "k = 0 \<or> num_less (Num (real (k - 1))) (numIteration this)"
  shows "executeAsync_loop h env i this tr =
         executeAsync_loop h env k
           (this\<lparr>results := results this @ map (elapsedTime env) [i..<k]\<rparr>)
           (tr @ concat (map (iteration_events env this) [i..<k]))"
  using assms
proof (induction "k - i" arbitrary: i this tr)
  case 0
  then show ?case by simp
next
  case (Suc d)
  then have lt: "i < k" and d: "d = k - Suc i" by auto
  have less: "num_less (Num (real i)) (numIteration this)"
    using Suc.prems(3) lt num_less_index_mono [of "k - 1" "numIteration this" i] by auto
  have ok: "failure (h_executeSingleAsync h i (variant this)) = None"
    using Suc.prems(1) lt by simp
  let ?b = "this\<lparr>results := results this @ [elapsedTime env i]\<rparr>"
  have step: "executeAsync_loop h env i this tr =
      executeAsync_loop h env (Suc i) ?b (tr @ iteration_events env this i)"
    by (subst executeAsync_loop.simps) (simp add: less ok iteration_events_def)
  have "executeAsync_loop h env (Suc i) ?b (tr @ iteration_events env this i) =
        executeAsync_loop h env k
          (?b\<lparr>results := results ?b @ map (elapsedTime env) [Suc i..<k]\<rparr>)
          ((tr @ iteration_events env this i) @ concat (map (iteration_events env ?b) [Suc i..<k]))"
    using Suc.prems lt by (intro Suc.hyps(1)) (auto simp: d)
  with step show ?case
    using lt by (simp add: upt_conv_Cons)
qed

lemma executeAsync_loop_stop:
  "\<not> num_less (Num (real i)) (numIteration this) \<Longrightarrow>
     executeAsync_loop h env i this tr = Some (Resolved (), this, tr)"
  by (subst executeAsync_loop.simps) simp

lemma executeAsync_loop_fail:
  "num_less (Num (real i)) (numIteration this) \<Longrightarrow>
   failure (h_executeSingleAsync h i (variant this)) = Some e \<Longrightarrow>
     executeAsync_loop h env i this tr = Some (Rejected e, this, tr @ iteration_begin env this i)"
  by (subst executeAsync_loop.simps) simp

lemma executeAsync_success:
  assumes "numIteration this = Num (real N)"
    and "\<forall>j<N. failure (h_executeSingleAsync h j (variant this)) = None"
  shows "executeAsync h env this =
           Some (Resolved (), this\<lparr>results := results this @ map (elapsedTime env) [0..<N]\<rparr>,
                 concat (map (iteration_events env this) [0..<N]))"
proof -
  have "executeAsync_loop h env 0 this [] =
         executeAsync_loop h env N
           (this\<lparr>results := results this @ map (elapsedTime env) [0..<N]\<rparr>)
           ([] @ concat (map (iteration_events env this) [0..<N]))"
    using assms by (intro executeAsync_loop_prefix) auto
  then show ?thesis
    using assms(1) by (simp add: executeAsync_def executeAsync_loop_stop)
qed

lemma executeAsync_failure:
  assumes "num_less (Num (real k)) (numIteration this)"
    and "\<forall>j<k. failure (h_executeSingleAsync h j (variant this)) = None"
    and "failure (h_executeSingleAsync h k (variant this)) = Some e"
  shows "executeAsync h env this =
           Some (Rejected e, this\<lparr>results := results this @ map (elapsedTime env) [0..<k]\<rparr>,
                 concat (map (iteration_events env this) [0..<k]) @ iteration_begin env this k)"
proof -
  have "executeAsync_loop h env 0 this [] =
         executeAsync_loop h env k
           (this\<lparr>results := results this @ map (elapsedTime env) [0..<k]\<rparr>)
           ([] @ concat (map (iteration_events env this) [0..<k]))"
    using assms num_less_index_mono [OF assms(1), of "k - 1"]
    by (intro executeAsync_loop_prefix) auto
  then show ?thesis
    using assms by (simp add: executeAsync_def executeAsync_loop_fail)
qed

subsection \<open>The outcomes of runAsync\<close>

lemma iteration_begin_variant [simp]:
  "iteration_begin env (this\<lparr>variant := v\<rparr>) = iteration_begin env this"
  by (rule ext) (simp add: iteration_begin_def onExecuteSingle_def)

lemma iteration_events_variant [simp]:
  "iteration_events env (this\<lparr>variant := v\<rparr>) = iteration_events env this"
  by (rule ext) (simp add: iteration_events_def)

lemma runAsync_setup_thrown:
  assumes "h_setupAsync h (variant this0) = (Thrown e, v, msgs)"
  shows "runAsync h env n this0 =
           Some (Rejected e, this0\<lparr>numIteration := n, results := [], variant := v\<rparr>,
                 SetupAsync # map ConsoleLog msgs)"
  using assms by (simp add: runAsync_def)

lemma runAsync_setup_rejected:
  assumes "h_setupAsync h (variant this0) = (Rejected e, v, msgs)"
  shows "runAsync h env n this0 =
           Some (Resolved None, this0\<lparr>numIteration := n, results := [], variant := v\<rparr>,
                 SetupAsync # map ConsoleLog msgs @ [ConsoleError e])"
  using assms by (simp add: runAsync_def)

lemma runAsync_execute_failed:
  assumes "h_setupAsync h (variant this0) = (Resolved u, v, msgs)"
    and "num_less (Num (real k)) n"
    and "\<forall>j<k. failure (h_executeSingleAsync h j v) = None"
    and "failure (h_executeSingleAsync h k v) = Some e"
  shows "runAsync h env n this0 =
           Some (Resolved None,
                 this0\<lparr>numIteration := n, results := map (elapsedTime env) [0..<k], variant := v\<rparr>,
                 SetupAsync # map ConsoleLog msgs
                 @ concat (map (iteration_events env (this0\<lparr>numIteration := n\<rparr>)) [0..<k])
                 @ iteration_begin env (this0\<lparr>numIteration := n\<rparr>) k @ [ConsoleError e])"
proof -
  let ?b = "this0\<lparr>numIteration := n, results := [], variant := v\<rparr>"
  have "executeAsync h env ?b =
          Some (Rejected e, ?b\<lparr>results := results ?b @ map (elapsedTime env) [0..<k]\<rparr>,
                concat (map (iteration_events env ?b) [0..<k]) @ iteration_begin env ?b k)"
    using assms(2-4) by (intro executeAsync_failure) simp_all
  then show ?thesis
    using assms(1) by (simp add: runAsync_def)
qed

lemma runAsync_finalize_failed:
  assumes "h_setupAsync h (variant this0) = (Resolved u, v, msgs)"
    and "\<forall>j<N. failure (h_executeSingleAsync h j v) = None"
    and "h_finalizeAsync h v = (c, v')" and "failure c = Some e"
  shows "runAsync h env (Num (real N)) this0 =
           Some (Resolved None,
                 this0\<lparr>numIteration := Num (real N), results := map (elapsedTime env) [0..<N],
                       variant := v'\<rparr>,
                 SetupAsync # map ConsoleLog msgs
                 @ concat (map (iteration_events env (this0\<lparr>numIteration := Num (real N)\<rparr>)) [0..<N])
                 @ [FinalizeAsync, ConsoleError e])"
proof -
  let ?b = "this0\<lparr>numIteration := Num (real N), results := [], variant := v\<rparr>"
  have "executeAsync h env ?b =
          Some (Resolved (), ?b\<lparr>results := results ?b @ map (elapsedTime env) [0..<N]\<rparr>,
                concat (map (iteration_events env ?b) [0..<N]))"
    using assms(2) by (intro executeAsync_success) simp_all
  then show ?thesis
    using assms(1,3,4) by (simp add: runAsync_def)
qed

lemma runAsync_success:
  assumes "h_setupAsync h (variant this0) = (Resolved u, v, msgs)"
    and "\<forall>j<N. failure (h_executeSingleAsync h j v) = None"
    and "h_finalizeAsync h v = (c, v')" and "failure c = None"
    and "summarize (toString env) (name this0) (map (elapsedTime env) [0..<N]) = (s, rs)"
  shows "runAsync h env (Num (real N)) this0 =
           Some (Resolved (Some s),
                 this0\<lparr>numIteration := Num (real N), results := rs, variant := v',
                       summary := Some s\<rparr>,
                 SetupAsync # map ConsoleLog msgs
                 @ concat (map (iteration_events env (this0\<lparr>numIteration := Num (real N)\<rparr>)) [0..<N])
                 @ [FinalizeAsync, Summarize])"
proof -
  let ?b = "this0\<lparr>numIteration := Num (real N), results := [], variant := v\<rparr>"
  have "executeAsync h env ?b =
          Some (Resolved (), ?b\<lparr>results := results ?b @ map (elapsedTime env) [0..<N]\<rparr>,
                concat (map (iteration_events env ?b) [0..<N]))"
    using assms(2) by (intro executeAsync_success) simp_all
  then show ?thesis
    using assms(1,3,4,5) by (simp add: runAsync_def)
qed

lemma executeAsync_loop_preserves:
  assumes "executeAsync_loop h env i this tr = Some r"
  shows "name (fst (snd r)) = name this \<and> summary (fst (snd r)) = summary this
     \<and> numIteration (fst (snd r)) = numIteration this \<and> variant (fst (snd r)) = variant this"
  using assms
proof (induction h env i this tr r rule: executeAsync_loop.raw_induct [rotated 1, consumes 1])
  case (1 loop h env i this tr r)
  show ?case
  proof (cases "num_less (Num (real i)) (numIteration this)")
    case False
    with 1(2) show ?thesis by auto
  next
    case True
    show ?thesis
    proof (cases "failure (h_executeSingleAsync h i (variant this))")
      case (Some e)
      with True 1(2) show ?thesis by auto
    next
      case None
      with True 1(2) have "loop h env (Suc i)
               (this\<lparr>results := results this @ [elapsedTime env i]\<rparr>)
               (tr @ iteration_begin env this i @ iteration_end env i) = Some r"
        by simp
      from 1(1) [OF this] show ?thesis by simp
    qed
  qed
qed

lemma runAsync_numIteration:
  assumes "runAsync h env n this0 = Some (c, this', tr)"
  shows "numIteration this' = n"
proof (cases "h_setupAsync h (variant this0)")
  case (fields c0 v msgs)
  show ?thesis
  proof (cases c0)
    case (Resolved u)
    let ?b = "this0\<lparr>numIteration := n, results := [], variant := v\<rparr>"
    from assms fields Resolved obtain r where
      r: "executeAsync_loop h env 0 ?b [] = Some r"
      by (auto simp: runAsync_def executeAsync_def split: option.splits)
    from executeAsync_loop_preserves [OF r] have "numIteration (fst (snd r)) = n"
      by simp
    with assms fields Resolved r show ?thesis
      by (auto simp: runAsync_def executeAsync_def split: option.splits prod.splits)
  next
    case (Rejected e)
    with assms fields show ?thesis by (auto simp: runAsync_def)
  next
    case (Thrown e)
    with assms fields show ?thesis by (auto simp: runAsync_def)
  qed
qed

subsection \<open>Counting and unfolding events\<close>

lemma count_list_concat_map:
  "count_list (concat (map f ks)) a = (\<Sum>k\<leftarrow>ks. count_list (f k) a)"
  by (induction ks) simp_all

lemma count_ExecuteSingleAsync_iteration:
  "count_list (iteration_events env this i) ExecuteSingleAsync = 1"
  by (simp add: iteration_events_def iteration_begin_def iteration_end_def onExecuteSingle_def)

lemma count_list_ConsoleLog:
  "\<forall>m. a \<noteq> ConsoleLog m \<Longrightarrow> count_list (map ConsoleLog msgs) a = 0"
  by (induction msgs) auto

lemma sum_list_const_one: "(\<Sum>k\<leftarrow>ks. Suc 0) = length ks"
  by (induction ks) simp_all

lemma filter_timestamp_concat_iterations:
  "length (filter timestamp (concat (map (iteration_events env this) ks))) = 2 * length ks"
  by (induction ks)
     (simp_all add: iteration_events_def iteration_begin_def iteration_end_def onExecuteSingle_def)

lemma filter_timestamp_ConsoleLog: "filter timestamp (map ConsoleLog msgs) = []"
  by (induction msgs) simp_all

lemma iteration_events_unfold:
  "iteration_events env (this0\<lparr>numIteration := Num (real N)\<rparr>) =
     (\<lambda>i. [ConsoleLog (name this0 @ '': '' @ toString env (real i + 1) @ ''/''
                        @ toString env (real N)),
           SetTimeout 1000,
           PerformanceNow (tStart env i),
           ExecuteSingleAsync,
           PerformanceNow (tEnd env i),
           Push (fl64 (tEnd env i - tStart env i))])"
  by (rule ext)
     (simp add: iteration_events_def iteration_begin_def iteration_end_def onExecuteSingle_def
        elapsedTime_def)

lemma elapsedTime_fun: "elapsedTime env = (\<lambda>i. fl64 (tEnd env i - tStart env i))"
  by (rule ext) (simp add: elapsedTime_def)

lemma FinalizeAsync_notin_iterations:
  "FinalizeAsync \<notin> set (concat (map (iteration_events env this) ks))"
  "FinalizeAsync \<notin> set (iteration_events env this k)"
  "FinalizeAsync \<notin> set (iteration_begin env this k)"
  "FinalizeAsync \<notin> set (map ConsoleLog msgs)"
  by (auto simp: iteration_events_def iteration_begin_def iteration_end_def onExecuteSingle_def)

subsection \<open>The methods of the classes of the page\<close>

lemmas example_defs =
  page_env_def failing_run_env_def failing_load_env_def keras_throw_env_def vgg16_env_def
  unparsable_iterations_env_def probe_load_env_def large_iterations_env_def
  failing_finalize_hooks_def
  new_BaseBenchmark_def new_WebDNNBenchmark_def new_KerasJSBenchmark_def new_DeepLearnJSBenchmark_def

lemmas hook_defs =
  Let_def methods_def getSelectedModel_def run_outcome_def
  WebDNNBenchmark_setupAsync_def WebDNNBenchmark_executeSingleAsync_def WebDNNBenchmark_finalizeAsync_def
  WebDNN_load_url_def WebDNN_backendOrder_def
  KerasJSBenchmark_setupAsync_def KerasJSBenchmark_executeSingleAsync_def KerasJSBenchmark_finalizeAsync_def
  DeepLearnJSBenchmark_setupAsync_def DeepLearnJSBenchmark_executeSingleAsync_def
  DeepLearnJSBenchmark_finalizeAsync_def

lemma methods_finalize_releases:
  "\<exists>v'. h_finalizeAsync (methods env) v = (Resolved (), v') \<and> released v'"
  by (cases v) (simp_all add: hook_defs)

lemma methods_setup_resolved_holds_handle:
  assumes "h_setupAsync (methods env) v0 = (Resolved (), v, msgs)" and "v0 \<noteq> Base"
  shows "\<not> released v"
  using assms
  by (cases v0)
     (auto simp: hook_defs split: sum.splits option.splits if_splits prod.splits)

subsection \<open>The count that run passes on\<close>

lemma isNaN_round64 [simp]: "\<not> isNaN (round64 x)"
  by (simp add: round64_def Let_def signed_inf_def)

lemma round64_two_53_plus_one: "round64 9007199254740993 = Num 9007199254740992"
proof -
  have "fl64 9007199254740993 = of_int (round_half_even (9007199254740993 / 2 ^ 1)) * 2 ^ 1"
    by (rule fl64_down) simp_all
  also have "\<dots> = 9007199254740992" by (simp add: round_half_even_def)
  finally show ?thesis by (simp add: round64_def)
qed

lemma round64_succ:
  assumes "m < 2 ^ 53"
  shows "round64 (real m + 1) = Num (real (m + 1))"
proof -
  from assms have "m + 1 \<le> 2 ^ 53" by simp
  then have "real (m + 1) \<le> 2 ^ 53"
    by (metis of_nat_le_iff of_nat_numeral of_nat_power)
  then have "round64 (real (m + 1)) = Num (real (m + 1))"
    by (intro round64_Nats) simp_all
  then show ?thesis by (simp add: add.commute)
qed

lemma run_success:
  assumes ai: "array_index benchmarks (run_benchmark_id env) = Some k"
    and n: "run_numIteration env = Num (real N)"
    and st: "h_setupAsync (methods env) (variant (benchmarks ! k)) = (Resolved u, v, msgs)"
    and ex: "\<forall>j<N. failure (h_executeSingleAsync (methods env) j v) = None"
  shows "\<exists>this' tr s.
           run env benchmarks = Some (Resolved (), benchmarks[k := this'], tr)
         \<and> count_list tr ExecuteSingleAsync = N
         \<and> numIteration this' = Num (real N)
         \<and> summary this' = Some s
         \<and> length (summary_results s) = N - 1"
proof -
  let ?b = "benchmarks ! k"
  obtain s rs where sm:
    "summarize (toString env) (name ?b) (map (elapsedTime env) [0..<N]) = (s, rs)"
    by (cases "summarize (toString env) (name ?b) (map (elapsedTime env) [0..<N])")
  from methods_finalize_releases [of env v] obtain v' where
    fin: "h_finalizeAsync (methods env) v = (Resolved (), v')"
    by blast
  have c: "failure (Resolved ()) = None" by simp
  note r = runAsync_success [OF st ex fin c sm]
  have len: "length (summary_results s) = N - 1"
    using summarize_results [OF sm] by (simp add: length_js_sort length_shift)
  let ?this' = "?b\<lparr>numIteration := Num (real N), results := rs, variant := v',
                    summary := Some s\<rparr>"
  obtain tr where run: "run env benchmarks = Some (Resolved (), benchmarks[k := ?this'], tr)"
    and cnt: "count_list tr ExecuteSingleAsync = N"
    by (simp add: run_def Let_def ai n run_promise_chain_def r summaryHandler_def
        count_list_concat_map count_ExecuteSingleAsync_iteration count_list_ConsoleLog
        sum_list_const_one)
  have "numIteration ?this' = Num (real N)" and "summary ?this' = Some s"
    by simp_all
  with run cnt len show ?thesis by blast
qed

section \<open>The claims about the runner\<close>

text \<open>
  C1. For an iteration count \<open>N\<close> of at least two, when setup, every execution and
  finalize succeed, \<open>runAsync\<close> calls the single-execution hook exactly \<open>N\<close> times, reads
  the clock twice per call, and delivers and stores a summary whose sample sequence has
  \<open>N - 1\<close> elements.
\<close>

theorem runAsync_executions_and_samples:
  assumes "2 \<le> N"
    and "h_setupAsync h (variant this0) = (Resolved (), v, msgs)"
    and "\<forall>j<N. failure (h_executeSingleAsync h j v) = None"
    and "failure (fst (h_finalizeAsync h v)) = None"
  shows "\<exists>s this' tr.
           runAsync h env (Num (real N)) this0 = Some (Resolved (Some s), this', tr)
         \<and> summary this' = Some s
         \<and> count_list tr ExecuteSingleAsync = N
         \<and> length (filter timestamp tr) = 2 * N
         \<and> length (summary_results s) = N - 1"
proof -
  obtain s rs where sm:
    "summarize (toString env) (name this0) (map (elapsedTime env) [0..<N]) = (s, rs)"
    by (cases "summarize (toString env) (name this0) (map (elapsedTime env) [0..<N])")
  obtain c v' where fin: "h_finalizeAsync h v = (c, v')"
    by (cases "h_finalizeAsync h v")
  with assms(4) have c: "failure c = None" by simp
  note run = runAsync_success [OF assms(2) assms(3) fin c sm, of]
  have len: "length (summary_results s) = N - 1"
    using summarize_results [OF sm] by (simp add: length_js_sort length_shift)
  show ?thesis
    unfolding run
    by (simp add: len count_list_concat_map count_ExecuteSingleAsync_iteration
        count_list_ConsoleLog sum_list_const_one filter_timestamp_concat_iterations
        filter_timestamp_ConsoleLog)
qed

text \<open>
  An instance: three iterations of the first variant on the example page.
\<close>

theorem runAsync_executions_and_samples_witness:
  "2 \<le> (3::nat)
   \<and> h_setupAsync (methods page_env) (variant (new_WebDNNBenchmark ''WebDNN(WebGPU)'' ''webgpu'' False))
       = (Resolved (), WebDNN \<lparr>backend = ''webgpu'', flagOptimized = False, runner = Some 1\<rparr>,
          [''Model: resnet50''])
   \<and> failure (h_executeSingleAsync (methods page_env) 0
                  (WebDNN \<lparr>backend = ''webgpu'', flagOptimized = False, runner = Some 1\<rparr>)) = None
   \<and> failure (h_executeSingleAsync (methods page_env) 1
                  (WebDNN \<lparr>backend = ''webgpu'', flagOptimized = False, runner = Some 1\<rparr>)) = None
   \<and> failure (h_executeSingleAsync (methods page_env) 2
                  (WebDNN \<lparr>backend = ''webgpu'', flagOptimized = False, runner = Some 1\<rparr>)) = None
   \<and> failure (fst (h_finalizeAsync (methods page_env)
                  (WebDNN \<lparr>backend = ''webgpu'', flagOptimized = False, runner = Some 1\<rparr>))) = None
   \<and> (\<exists>s this' tr.
         runAsync (methods page_env) page_env (Num (real (3::nat)))
           (new_WebDNNBenchmark ''WebDNN(WebGPU)'' ''webgpu'' False)
           = Some (Resolved (Some s), this', tr)
       \<and> summary this' = Some s
       \<and> count_list tr ExecuteSingleAsync = 3
       \<and> length (filter timestamp tr) = 2 * 3
       \<and> length (summary_results s) = 3 - 1)"
proof -
  let ?v = "WebDNN \<lparr>backend = ''webgpu'', flagOptimized = False, runner = Some 1\<rparr>"
  have n: "2 \<le> (3::nat)" by simp
  have st: "h_setupAsync (methods page_env)
                 (variant (new_WebDNNBenchmark ''WebDNN(WebGPU)'' ''webgpu'' False))
               = (Resolved (), ?v, [''Model: resnet50''])"
    by (simp add: example_defs hook_defs)
  have exec: "\<forall>j<3. failure (h_executeSingleAsync (methods page_env) j ?v) = None"
    by (simp add: example_defs hook_defs)
  have fin: "failure (fst (h_finalizeAsync (methods page_env) ?v)) = None"
    by (simp add: example_defs hook_defs)
  from exec have each:
    "failure (h_executeSingleAsync (methods page_env) 0 ?v) = None"
    "failure (h_executeSingleAsync (methods page_env) 1 ?v) = None"
    "failure (h_executeSingleAsync (methods page_env) 2 ?v) = None"
    by simp_all
  from runAsync_executions_and_samples [OF n st exec fin, of page_env] n st each fin
  show ?thesis by (intro conjI)
qed

text \<open>
  C6. For an iteration count \<open>N\<close>, when no phase fails, the events of \<open>runAsync\<close> are, in
  this order: the call of setup and its messages; then \<open>N\<close> times the progress message,
  the cooldown of 1000 milliseconds, a reading of the clock, the execution, a second
  reading of the clock and the recording of the difference of the two readings; then
  finalize; then summarize, whose result is delivered and stored. The run is one sequence
  of events because each step is awaited or chained on the one before.
\<close>

theorem runAsync_phase_sequence:
  assumes "h_setupAsync h (variant this0) = (Resolved (), v, msgs)"
    and "\<forall>j<N. failure (h_executeSingleAsync h j v) = None"
    and "failure (fst (h_finalizeAsync h v)) = None"
  shows "\<exists>s this'.
           runAsync h env (Num (real N)) this0 =
             Some (Resolved (Some s), this',
                   [SetupAsync] @ map ConsoleLog msgs
                   @ concat (map (\<lambda>i. [ConsoleLog (name this0 @ '': '' @ toString env (real i + 1)
                                                    @ ''/'' @ toString env (real N)),
                                       SetTimeout 1000,
                                       PerformanceNow (tStart env i),
                                       ExecuteSingleAsync,
                                       PerformanceNow (tEnd env i),
                                       Push (fl64 (tEnd env i - tStart env i))]) [0..<N])
                   @ [FinalizeAsync, Summarize])
         \<and> s = fst (summarize (toString env) (name this0)
                      (map (\<lambda>i. fl64 (tEnd env i - tStart env i)) [0..<N]))
         \<and> summary this' = Some s"
proof -
  obtain s rs where sm:
    "summarize (toString env) (name this0) (map (elapsedTime env) [0..<N]) = (s, rs)"
    by (cases "summarize (toString env) (name this0) (map (elapsedTime env) [0..<N])")
  obtain c v' where fin: "h_finalizeAsync h v = (c, v')"
    by (cases "h_finalizeAsync h v")
  with assms(3) have c: "failure c = None" by simp
  from sm have s: "s = fst (summarize (toString env) (name this0)
                      (map (\<lambda>i. fl64 (tEnd env i - tStart env i)) [0..<N]))"
    by (simp add: elapsedTime_fun)
  show ?thesis
    unfolding runAsync_success [OF assms(1) assms(2) fin c sm] iteration_events_unfold
    using s by simp
qed

text \<open>
  An instance: two iterations of the first variant on the example page, with the whole
  sequence of events written out.
\<close>

theorem runAsync_phase_sequence_witness:
  "h_setupAsync (methods page_env) (variant (new_WebDNNBenchmark ''WebDNN(WebGPU)'' ''webgpu'' False))
       = (Resolved (), WebDNN \<lparr>backend = ''webgpu'', flagOptimized = False, runner = Some 1\<rparr>,
          [''Model: resnet50''])
   \<and> failure (h_executeSingleAsync (methods page_env) 0
                  (WebDNN \<lparr>backend = ''webgpu'', flagOptimized = False, runner = Some 1\<rparr>)) = None
   \<and> failure (h_executeSingleAsync (methods page_env) 1
                  (WebDNN \<lparr>backend = ''webgpu'', flagOptimized = False, runner = Some 1\<rparr>)) = None
   \<and> failure (fst (h_finalizeAsync (methods page_env)
                  (WebDNN \<lparr>backend = ''webgpu'', flagOptimized = False, runner = Some 1\<rparr>))) = None
   \<and> (\<exists>s this'.
         runAsync (methods page_env) page_env (Num (real (2::nat)))
           (new_WebDNNBenchmark ''WebDNN(WebGPU)'' ''webgpu'' False)
           = Some (Resolved (Some s), this',
                   [SetupAsync, ConsoleLog ''Model: resnet50'',
                    ConsoleLog ''WebDNN(WebGPU): 1/2'', SetTimeout 1000, PerformanceNow 1000,
                    ExecuteSingleAsync, PerformanceNow 1050, Push 50,
                    ConsoleLog ''WebDNN(WebGPU): 2/2'', SetTimeout 1000, PerformanceNow 3000,
                    ExecuteSingleAsync, PerformanceNow 3010, Push 10,
                    FinalizeAsync, Summarize]))"
proof -
  let ?v = "WebDNN \<lparr>backend = ''webgpu'', flagOptimized = False, runner = Some 1\<rparr>"
  have st: "h_setupAsync (methods page_env)
                 (variant (new_WebDNNBenchmark ''WebDNN(WebGPU)'' ''webgpu'' False))
               = (Resolved (), ?v, [''Model: resnet50''])"
    by (simp add: example_defs hook_defs)
  have exec: "\<forall>j<2. failure (h_executeSingleAsync (methods page_env) j ?v) = None"
    by (simp add: example_defs hook_defs)
  from exec have each:
    "failure (h_executeSingleAsync (methods page_env) 0 ?v) = None"
    "failure (h_executeSingleAsync (methods page_env) 1 ?v) = None"
    by simp_all
  have fin: "failure (fst (h_finalizeAsync (methods page_env) ?v)) = None"
    by (simp add: example_defs hook_defs)
  have one: "toString_integer 1 = ''1''" and two: "toString_integer 2 = ''2''"
    by code_simp+
  have upt: "[0..<2] = [0, Suc 0]"
    by (simp add: numeral_2_eq_2)
  have nm: "name (new_WebDNNBenchmark ''WebDNN(WebGPU)'' ''webgpu'' False) = ''WebDNN(WebGPU)''"
    by (simp add: example_defs)
  have ts: "toString page_env = toString_integer" "tStart page_env = (\<lambda>i. 2000 * real i + 1000)"
    "tEnd page_env = (\<lambda>i. 2000 * real i + 1000
                  + (if i = 0 then 50 else if i = 1 then 10 else if i = 2 then 9 else 100))"
    by (simp_all add: page_env_def)
  from runAsync_phase_sequence [OF st exec fin, of page_env]
  obtain s this' where
    "runAsync (methods page_env) page_env (Num (real (2::nat)))
           (new_WebDNNBenchmark ''WebDNN(WebGPU)'' ''webgpu'' False)
           = Some (Resolved (Some s), this',
                   [SetupAsync, ConsoleLog ''Model: resnet50'',
                    ConsoleLog ''WebDNN(WebGPU): 1/2'', SetTimeout 1000, PerformanceNow 1000,
                    ExecuteSingleAsync, PerformanceNow 1050, Push 50,
                    ConsoleLog ''WebDNN(WebGPU): 2/2'', SetTimeout 1000, PerformanceNow 3000,
                    ExecuteSingleAsync, PerformanceNow 3010, Push 10,
                    FinalizeAsync, Summarize])"
    unfolding upt nm ts by (auto simp: one two)
  with st each fin show ?thesis by blast
qed

text \<open>
  C5. When a phase fails, the phases after it are skipped, no summary is stored, the
  error reaches \<open>console_error\<close>, and nothing is retried. The statement is about the
  promise chain that \<open>run\<close> builds around \<open>runAsync\<close>, for any table of hooks and one
  case per failing phase: setup rejects; setup throws; the execution of iteration \<open>k\<close>
  fails after \<open>k\<close> successful ones; finalize fails after \<open>N\<close> successful executions. In
  each case the events are given in full, so each phase before the failure occurs once
  and no phase occurs after it, and the object keeps the summary it had before the run
  (none on a fresh object). The second \<open>console_error\<close> of a \<open>TypeError\<close> is
  \<open>summaryHandler\<close> reading the name of the \<open>undefined\<close> that \<open>runAsync\<close> delivered.
\<close>

theorem failed_phase_aborts_run:
  "(h_setupAsync h (variant this0) = (Rejected e, v, msgs) \<longrightarrow>
      (\<exists>this'.
         run_promise_chain h env n this0 =
           Some (this', [SetupAsync] @ map ConsoleLog msgs
                        @ [ConsoleError e, ConsoleError TypeError])
       \<and> summary this' = summary this0 \<and> results this' = [] \<and> variant this' = v))
   \<and> (h_setupAsync h (variant this0) = (Thrown e, v, msgs) \<longrightarrow>
      (\<exists>this'.
         run_promise_chain h env n this0 =
           Some (this', [SetupAsync] @ map ConsoleLog msgs @ [ConsoleError e])
       \<and> summary this' = summary this0 \<and> results this' = [] \<and> variant this' = v))
   \<and> (h_setupAsync h (variant this0) = (Resolved (), v, msgs)
        \<and> num_less (Num (real k)) n
        \<and> (\<forall>j<k. failure (h_executeSingleAsync h j v) = None)
        \<and> failure (h_executeSingleAsync h k v) = Some e \<longrightarrow>
      (\<exists>this'.
         run_promise_chain h env n this0 =
           Some (this', [SetupAsync] @ map ConsoleLog msgs
                        @ concat (map (iteration_events env (this0\<lparr>numIteration := n\<rparr>)) [0..<k])
                        @ iteration_begin env (this0\<lparr>numIteration := n\<rparr>) k
                        @ [ConsoleError e, ConsoleError TypeError])
       \<and> summary this' = summary this0
       \<and> results this' = map (\<lambda>i. fl64 (tEnd env i - tStart env i)) [0..<k]
       \<and> variant this' = v))
   \<and> (h_setupAsync h (variant this0) = (Resolved (), v, msgs)
        \<and> (\<forall>j<N. failure (h_executeSingleAsync h j v) = None)
        \<and> h_finalizeAsync h v = (c, v') \<and> failure c = Some e \<longrightarrow>
      (\<exists>this'.
         run_promise_chain h env (Num (real N)) this0 =
           Some (this', [SetupAsync] @ map ConsoleLog msgs
                        @ concat (map (iteration_events env (this0\<lparr>numIteration := Num (real N)\<rparr>))
                                      [0..<N])
                        @ [FinalizeAsync, ConsoleError e, ConsoleError TypeError])
       \<and> summary this' = summary this0
       \<and> results this' = map (\<lambda>i. fl64 (tEnd env i - tStart env i)) [0..<N]
       \<and> variant this' = v'))"
proof (intro conjI impI)
  assume "h_setupAsync h (variant this0) = (Rejected e, v, msgs)"
  from runAsync_setup_rejected [OF this]
  show "\<exists>this'.
         run_promise_chain h env n this0 =
           Some (this', [SetupAsync] @ map ConsoleLog msgs
                        @ [ConsoleError e, ConsoleError TypeError])
       \<and> summary this' = summary this0 \<and> results this' = [] \<and> variant this' = v"
    by (simp add: run_promise_chain_def summaryHandler_def)
next
  assume "h_setupAsync h (variant this0) = (Thrown e, v, msgs)"
  from runAsync_setup_thrown [OF this]
  show "\<exists>this'.
         run_promise_chain h env n this0 =
           Some (this', [SetupAsync] @ map ConsoleLog msgs @ [ConsoleError e])
       \<and> summary this' = summary this0 \<and> results this' = [] \<and> variant this' = v"
    by (simp add: run_promise_chain_def)
next
  assume "h_setupAsync h (variant this0) = (Resolved (), v, msgs)
        \<and> num_less (Num (real k)) n
        \<and> (\<forall>j<k. failure (h_executeSingleAsync h j v) = None)
        \<and> failure (h_executeSingleAsync h k v) = Some e"
  then have "runAsync h env n this0 =
           Some (Resolved None,
                 this0\<lparr>numIteration := n, results := map (elapsedTime env) [0..<k], variant := v\<rparr>,
                 SetupAsync # map ConsoleLog msgs
                 @ concat (map (iteration_events env (this0\<lparr>numIteration := n\<rparr>)) [0..<k])
                 @ iteration_begin env (this0\<lparr>numIteration := n\<rparr>) k @ [ConsoleError e])"
    by (intro runAsync_execute_failed) auto
  then show "\<exists>this'.
         run_promise_chain h env n this0 =
           Some (this', [SetupAsync] @ map ConsoleLog msgs
                        @ concat (map (iteration_events env (this0\<lparr>numIteration := n\<rparr>)) [0..<k])
                        @ iteration_begin env (this0\<lparr>numIteration := n\<rparr>) k
                        @ [ConsoleError e, ConsoleError TypeError])
       \<and> summary this' = summary this0
       \<and> results this' = map (\<lambda>i. fl64 (tEnd env i - tStart env i)) [0..<k]
       \<and> variant this' = v"
    by (simp add: run_promise_chain_def summaryHandler_def elapsedTime_fun)
next
  assume "h_setupAsync h (variant this0) = (Resolved (), v, msgs)
        \<and> (\<forall>j<N. failure (h_executeSingleAsync h j v) = None)
        \<and> h_finalizeAsync h v = (c, v') \<and> failure c = Some e"
  then have "runAsync h env (Num (real N)) this0 =
           Some (Resolved None,
                 this0\<lparr>numIteration := Num (real N), results := map (elapsedTime env) [0..<N],
                       variant := v'\<rparr>,
                 SetupAsync # map ConsoleLog msgs
                 @ concat (map (iteration_events env (this0\<lparr>numIteration := Num (real N)\<rparr>)) [0..<N])
                 @ [FinalizeAsync, ConsoleError e])"
    by (intro runAsync_finalize_failed [where c = c]) auto
  then show "\<exists>this'.
         run_promise_chain h env (Num (real N)) this0 =
           Some (this', [SetupAsync] @ map ConsoleLog msgs
                        @ concat (map (iteration_events env (this0\<lparr>numIteration := Num (real N)\<rparr>))
                                      [0..<N])
                        @ [FinalizeAsync, ConsoleError e, ConsoleError TypeError])
       \<and> summary this' = summary this0
       \<and> results this' = map (\<lambda>i. fl64 (tEnd env i - tStart env i)) [0..<N]
       \<and> variant this' = v'"
    by (simp add: run_promise_chain_def summaryHandler_def elapsedTime_fun)
qed

text \<open>
  Four instances, one per case: the artifact of the first variant cannot be loaded; the
  constructor of the Keras.js model throws; the second inference call fails in a run of
  four; the finalize hook of a subclass rejects after a run of one.
\<close>

theorem failed_phase_aborts_run_witness:
  "(h_setupAsync (methods failing_load_env)
        (variant (new_WebDNNBenchmark ''WebDNN(WebGPU)'' ''webgpu'' False))
      = (Rejected (Error ''404''),
         WebDNN \<lparr>backend = ''webgpu'', flagOptimized = False, runner = None\<rparr>,
         [''Model: resnet50''])
    \<and> (\<exists>this'.
         run_promise_chain (methods failing_load_env) failing_load_env (Num 4)
           (new_WebDNNBenchmark ''WebDNN(WebGPU)'' ''webgpu'' False)
         = Some (this', [SetupAsync, ConsoleLog ''Model: resnet50'', ConsoleError (Error ''404''),
                         ConsoleError TypeError])
       \<and> summary this' = None \<and> results this' = []
       \<and> variant this' = WebDNN \<lparr>backend = ''webgpu'', flagOptimized = False, runner = None\<rparr>))
   \<and> (h_setupAsync (methods keras_throw_env) (variant (new_KerasJSBenchmark ''Keras.js(CPU)'' False))
      = (Thrown TypeError, KerasJS \<lparr>flagGPU = False, model = None, xs_field = None\<rparr>,
         [''Model: resnet50''])
    \<and> (\<exists>this'.
         run_promise_chain (methods keras_throw_env) keras_throw_env (Num 4)
           (new_KerasJSBenchmark ''Keras.js(CPU)'' False)
         = Some (this', [SetupAsync, ConsoleLog ''Model: resnet50'', ConsoleError TypeError])
       \<and> summary this' = None \<and> results this' = []
       \<and> variant this' = KerasJS \<lparr>flagGPU = False, model = None, xs_field = None\<rparr>))
   \<and> (h_setupAsync (methods failing_run_env)
        (variant (new_WebDNNBenchmark ''WebDNN(WebGPU)'' ''webgpu'' False))
      = (Resolved (), WebDNN \<lparr>backend = ''webgpu'', flagOptimized = False, runner = Some 1\<rparr>,
         [''Model: resnet50''])
    \<and> num_less (Num (real (1::nat))) (Num 4)
    \<and> failure (h_executeSingleAsync (methods failing_run_env) 0
           (WebDNN \<lparr>backend = ''webgpu'', flagOptimized = False, runner = Some 1\<rparr>)) = None
    \<and> failure (h_executeSingleAsync (methods failing_run_env) 1
           (WebDNN \<lparr>backend = ''webgpu'', flagOptimized = False, runner = Some 1\<rparr>))
        = Some (Error ''device lost'')
    \<and> (\<exists>this'.
         run_promise_chain (methods failing_run_env) failing_run_env (Num 4)
           (new_WebDNNBenchmark ''WebDNN(WebGPU)'' ''webgpu'' False)
         = Some (this',
                 [SetupAsync, ConsoleLog ''Model: resnet50'',
                  ConsoleLog ''WebDNN(WebGPU): 1/4'', SetTimeout 1000, PerformanceNow 1000,
                  ExecuteSingleAsync, PerformanceNow 1050, Push 50,
                  ConsoleLog ''WebDNN(WebGPU): 2/4'', SetTimeout 1000, PerformanceNow 3000,
                  ExecuteSingleAsync,
                  ConsoleError (Error ''device lost''), ConsoleError TypeError])
       \<and> summary this' = None \<and> results this' = [50]
       \<and> variant this' = WebDNN \<lparr>backend = ''webgpu'', flagOptimized = False, runner = Some 1\<rparr>))
   \<and> (h_setupAsync failing_finalize_hooks
        (variant (new_WebDNNBenchmark ''WebDNN(WebGPU)'' ''webgpu'' False))
      = (Resolved (), WebDNN \<lparr>backend = ''webgpu'', flagOptimized = False, runner = Some 1\<rparr>,
         [''Model: resnet50''])
    \<and> failure (h_executeSingleAsync failing_finalize_hooks 0
           (WebDNN \<lparr>backend = ''webgpu'', flagOptimized = False, runner = Some 1\<rparr>)) = None
    \<and> h_finalizeAsync failing_finalize_hooks
           (WebDNN \<lparr>backend = ''webgpu'', flagOptimized = False, runner = Some 1\<rparr>)
        = (Rejected (Error ''finalize failed''),
           WebDNN \<lparr>backend = ''webgpu'', flagOptimized = False, runner = Some 1\<rparr>)
    \<and> failure (Rejected (Error ''finalize failed'') :: unit completion)
        = Some (Error ''finalize failed'')
    \<and> (\<exists>this'.
         run_promise_chain failing_finalize_hooks page_env (Num (real (1::nat)))
           (new_WebDNNBenchmark ''WebDNN(WebGPU)'' ''webgpu'' False)
         = Some (this',
                 [SetupAsync, ConsoleLog ''Model: resnet50'',
                  ConsoleLog ''WebDNN(WebGPU): 1/1'', SetTimeout 1000, PerformanceNow 1000,
                  ExecuteSingleAsync, PerformanceNow 1050, Push 50,
                  FinalizeAsync, ConsoleError (Error ''finalize failed''), ConsoleError TypeError])
       \<and> summary this' = None \<and> results this' = [50]
       \<and> variant this' = WebDNN \<lparr>backend = ''webgpu'', flagOptimized = False, runner = Some 1\<rparr>))"
proof -
  let ?b = "new_WebDNNBenchmark ''WebDNN(WebGPU)'' ''webgpu'' False"
  let ?v0 = "WebDNN \<lparr>backend = ''webgpu'', flagOptimized = False, runner = None\<rparr>"
  let ?v1 = "WebDNN \<lparr>backend = ''webgpu'', flagOptimized = False, runner = Some 1\<rparr>"
  let ?k = "new_KerasJSBenchmark ''Keras.js(CPU)'' False"
  let ?kv = "KerasJS \<lparr>flagGPU = False, model = None, xs_field = None\<rparr>"
  have digits: "toString_integer 1 = ''1''" "toString_integer 2 = ''2''" "toString_integer 4 = ''4''"
    by code_simp+
  have upt: "[0..<1] = [0]" by simp
  have nm: "name ?b = ''WebDNN(WebGPU)''" and sm: "summary ?b = None" "summary ?k = None"
    by (simp_all add: example_defs)
  have ts: "toString failing_run_env = toString_integer" "toString page_env = toString_integer"
    "tStart failing_run_env = (\<lambda>i. 2000 * real i + 1000)"
    "tStart page_env = (\<lambda>i. 2000 * real i + 1000)"
    "tEnd failing_run_env = (\<lambda>i. 2000 * real i + 1000
                  + (if i = 0 then 50 else if i = 1 then 10 else if i = 2 then 9 else 100))"
    "tEnd page_env = (\<lambda>i. 2000 * real i + 1000
                  + (if i = 0 then 50 else if i = 1 then 10 else if i = 2 then 9 else 100))"
    by (simp_all add: page_env_def failing_run_env_def)
  note events = iteration_events_def iteration_begin_def iteration_end_def onExecuteSingle_def
    elapsedTime_def
  have a1: "h_setupAsync (methods failing_load_env) (variant ?b)
              = (Rejected (Error ''404''), ?v0, [''Model: resnet50''])"
    by (simp add: example_defs hook_defs)
  have a2: "h_setupAsync (methods keras_throw_env) (variant ?k)
              = (Thrown TypeError, ?kv, [''Model: resnet50''])"
    by (simp add: example_defs hook_defs)
  have a3: "h_setupAsync (methods failing_run_env) (variant ?b)
              = (Resolved (), ?v1, [''Model: resnet50''])"
    "num_less (Num (real (1::nat))) (Num 4)"
    "failure (h_executeSingleAsync (methods failing_run_env) 0 ?v1) = None"
    "failure (h_executeSingleAsync (methods failing_run_env) 1 ?v1) = Some (Error ''device lost'')"
    by (simp_all add: example_defs hook_defs)
  have a4: "h_setupAsync failing_finalize_hooks (variant ?b)
              = (Resolved (), ?v1, [''Model: resnet50''])"
    "failure (h_executeSingleAsync failing_finalize_hooks 0 ?v1) = None"
    "h_finalizeAsync failing_finalize_hooks ?v1 = (Rejected (Error ''finalize failed''), ?v1)"
    "failure (Rejected (Error ''finalize failed'') :: unit completion)
        = Some (Error ''finalize failed'')"
    by (simp_all add: example_defs hook_defs)
  have c1: "\<exists>this'.
         run_promise_chain (methods failing_load_env) failing_load_env (Num 4) ?b
         = Some (this', [SetupAsync, ConsoleLog ''Model: resnet50'', ConsoleError (Error ''404''),
                         ConsoleError TypeError])
       \<and> summary this' = None \<and> results this' = [] \<and> variant this' = ?v0"
    using failed_phase_aborts_run
      [where h = "methods failing_load_env" and ?this0.0 = ?b and e = "Error ''404''"
         and v = ?v0 and msgs = "[''Model: resnet50'']" and env = failing_load_env and n = "Num 4"]
      a1
    by (simp add: sm)
  have c2: "\<exists>this'.
         run_promise_chain (methods keras_throw_env) keras_throw_env (Num 4) ?k
         = Some (this', [SetupAsync, ConsoleLog ''Model: resnet50'', ConsoleError TypeError])
       \<and> summary this' = None \<and> results this' = [] \<and> variant this' = ?kv"
    using failed_phase_aborts_run
      [where h = "methods keras_throw_env" and ?this0.0 = ?k and e = TypeError
         and v = ?kv and msgs = "[''Model: resnet50'']" and env = keras_throw_env and n = "Num 4"]
      a2
    by (simp add: sm)
  have c3: "\<exists>this'.
         run_promise_chain (methods failing_run_env) failing_run_env (Num 4) ?b
         = Some (this',
                 [SetupAsync, ConsoleLog ''Model: resnet50'',
                  ConsoleLog ''WebDNN(WebGPU): 1/4'', SetTimeout 1000, PerformanceNow 1000,
                  ExecuteSingleAsync, PerformanceNow 1050, Push 50,
                  ConsoleLog ''WebDNN(WebGPU): 2/4'', SetTimeout 1000, PerformanceNow 3000,
                  ExecuteSingleAsync,
                  ConsoleError (Error ''device lost''), ConsoleError TypeError])
       \<and> summary this' = None \<and> results this' = [50] \<and> variant this' = ?v1"
    using failed_phase_aborts_run
      [where h = "methods failing_run_env" and ?this0.0 = ?b and e = "Error ''device lost''"
         and v = ?v1 and msgs = "[''Model: resnet50'']" and env = failing_run_env and n = "Num 4"
         and k = 1]
      a3
    by (simp add: upt digits nm sm events ts)
  have c4: "\<exists>this'.
         run_promise_chain failing_finalize_hooks page_env (Num (real (1::nat))) ?b
         = Some (this',
                 [SetupAsync, ConsoleLog ''Model: resnet50'',
                  ConsoleLog ''WebDNN(WebGPU): 1/1'', SetTimeout 1000, PerformanceNow 1000,
                  ExecuteSingleAsync, PerformanceNow 1050, Push 50,
                  FinalizeAsync, ConsoleError (Error ''finalize failed''), ConsoleError TypeError])
       \<and> summary this' = None \<and> results this' = [50] \<and> variant this' = ?v1"
    using failed_phase_aborts_run
      [where h = failing_finalize_hooks and ?this0.0 = ?b and e = "Error ''finalize failed''"
         and v = ?v1 and msgs = "[''Model: resnet50'']" and env = page_env and N = 1
         and c = "Rejected (Error ''finalize failed'')" and v' = ?v1]
      a4
    by (simp add: upt digits nm sm events ts)
  from a1 a2 a3 a4 c1 c2 c3 c4 show ?thesis
    by (intro conjI)
qed

text \<open>
  C10. The claim is that the promise of \<open>runAsync\<close> is never rejected, whatever fails.
  That holds for every failure that arrives as a rejected promise (the outcome lemmas
  above). \<open>KerasJSBenchmark.setupAsync\<close>, unlike the \<open>setupAsync\<close> of the other classes, is
  not an \<open>async\<close> function: when the constructor of the model throws, the exception
  leaves \<open>setupAsync\<close> before any promise exists, passes by the \<open>catch\<close> of the chain and
  rejects the promise of \<open>runAsync\<close>, with nothing reported by \<open>runAsync\<close>.
\<close>

theorem KerasJS_constructor_exception_rejects_runAsync:
  "runAsync (methods keras_throw_env) keras_throw_env (Num 4)
       (new_KerasJSBenchmark ''Keras.js(CPU)'' False)
     = Some (Rejected TypeError,
             (new_KerasJSBenchmark ''Keras.js(CPU)'' False)\<lparr>numIteration := Num 4, results := []\<rparr>,
             [SetupAsync, ConsoleLog ''Model: resnet50''])"
proof -
  let ?k = "new_KerasJSBenchmark ''Keras.js(CPU)'' False"
  have st: "h_setupAsync (methods keras_throw_env) (variant ?k)
              = (Thrown TypeError, variant ?k, [''Model: resnet50''])"
    by (simp add: example_defs hook_defs)
  show ?thesis
    by (simp add: runAsync_setup_thrown [OF st])
qed

text \<open>
  C3. The claim is that finalize runs and releases the engine handles also when an
  execution has failed. It does not: in a run of four iterations of the first variant
  whose second inference call fails, the error is reported with no call of finalize
  before or after it, and the object still holds the runner that setup loaded.
\<close>

theorem finalize_skipped_counterexample:
  "runAsync (methods failing_run_env) failing_run_env (Num 4)
       (new_WebDNNBenchmark ''WebDNN(WebGPU)'' ''webgpu'' False)
     = Some (Resolved None,
             (new_WebDNNBenchmark ''WebDNN(WebGPU)'' ''webgpu'' False)
               \<lparr>numIteration := Num 4, results := [50],
                 variant := WebDNN \<lparr>backend = ''webgpu'', flagOptimized = False, runner = Some 1\<rparr>\<rparr>,
             [SetupAsync, ConsoleLog ''Model: resnet50'',
              ConsoleLog ''WebDNN(WebGPU): 1/4'', SetTimeout 1000, PerformanceNow 1000,
              ExecuteSingleAsync, PerformanceNow 1050, Push 50,
              ConsoleLog ''WebDNN(WebGPU): 2/4'', SetTimeout 1000, PerformanceNow 3000,
              ExecuteSingleAsync,
              ConsoleError (Error ''device lost'')])
   \<and> \<not> released (WebDNN \<lparr>backend = ''webgpu'', flagOptimized = False, runner = Some 1\<rparr>)"
proof -
  let ?b = "new_WebDNNBenchmark ''WebDNN(WebGPU)'' ''webgpu'' False"
  let ?v1 = "WebDNN \<lparr>backend = ''webgpu'', flagOptimized = False, runner = Some 1\<rparr>"
  have digits: "toString_integer 1 = ''1''" "toString_integer 2 = ''2''" "toString_integer 4 = ''4''"
    by code_simp+
  have upt: "[0..<1] = [0]" by simp
  have nm: "name ?b = ''WebDNN(WebGPU)''"
    by (simp add: example_defs)
  have ts: "toString failing_run_env = toString_integer"
    "tStart failing_run_env = (\<lambda>i. 2000 * real i + 1000)"
    "tEnd failing_run_env = (\<lambda>i. 2000 * real i + 1000
                  + (if i = 0 then 50 else if i = 1 then 10 else if i = 2 then 9 else 100))"
    by (simp_all add: page_env_def failing_run_env_def)
  note events = iteration_events_def iteration_begin_def iteration_end_def onExecuteSingle_def
    elapsedTime_def
  have a: "h_setupAsync (methods failing_run_env) (variant ?b)
              = (Resolved (), ?v1, [''Model: resnet50''])"
    "num_less (Num (real (1::nat))) (Num 4)"
    "\<forall>j<1. failure (h_executeSingleAsync (methods failing_run_env) j ?v1) = None"
    "failure (h_executeSingleAsync (methods failing_run_env) 1 ?v1) = Some (Error ''device lost'')"
    by (simp_all add: example_defs hook_defs)
  show ?thesis
    unfolding runAsync_execute_failed [OF a, of failing_run_env]
    by (simp add: upt digits nm events ts)
qed

text \<open>
  C3, as amended. For each class of the page, after a successful setup: when every
  execution succeeds, finalize is called and the handles of the variant are released;
  when the execution of some iteration fails, the error is the last event, finalize is
  not called, and the variant holds what setup left in it, which for the three engine
  adapters is an unreleased handle.
\<close>

theorem finalize_only_after_success:
  assumes "h_setupAsync (methods env) (variant this0) = (Resolved (), v, msgs)"
  shows "((\<forall>j<N. failure (h_executeSingleAsync (methods env) j v) = None) \<longrightarrow>
            (\<exists>s this' tr.
               runAsync (methods env) env (Num (real N)) this0 = Some (Resolved (Some s), this', tr)
             \<and> FinalizeAsync \<in> set tr \<and> released (variant this')))
       \<and> (num_less (Num (real k)) n
          \<and> (\<forall>j<k. failure (h_executeSingleAsync (methods env) j v) = None)
          \<and> failure (h_executeSingleAsync (methods env) k v) = Some e \<longrightarrow>
            (\<exists>this' tr.
               runAsync (methods env) env n this0 = Some (Resolved None, this', tr)
             \<and> last tr = ConsoleError e \<and> FinalizeAsync \<notin> set tr
             \<and> variant this' = v \<and> (variant this0 \<noteq> Base \<longrightarrow> \<not> released (variant this'))))"
proof (intro conjI impI)
  assume ok: "\<forall>j<N. failure (h_executeSingleAsync (methods env) j v) = None"
  obtain v' where fin: "h_finalizeAsync (methods env) v = (Resolved (), v')" and rel: "released v'"
    using methods_finalize_releases by blast
  obtain s rs where sm:
    "summarize (toString env) (name this0) (map (elapsedTime env) [0..<N]) = (s, rs)"
    by (cases "summarize (toString env) (name this0) (map (elapsedTime env) [0..<N])")
  have c: "failure (Resolved () :: unit completion) = None" by simp
  show "\<exists>s this' tr.
               runAsync (methods env) env (Num (real N)) this0 = Some (Resolved (Some s), this', tr)
             \<and> FinalizeAsync \<in> set tr \<and> released (variant this')"
    unfolding runAsync_success [OF assms ok fin c sm]
    using rel by simp
next
  assume "num_less (Num (real k)) n
          \<and> (\<forall>j<k. failure (h_executeSingleAsync (methods env) j v) = None)
          \<and> failure (h_executeSingleAsync (methods env) k v) = Some e"
  then have a: "num_less (Num (real k)) n"
    "\<forall>j<k. failure (h_executeSingleAsync (methods env) j v) = None"
    "failure (h_executeSingleAsync (methods env) k v) = Some e"
    by simp_all
  have held: "variant this0 \<noteq> Base \<longrightarrow> \<not> released v"
    using methods_setup_resolved_holds_handle [OF assms] by simp
  show "\<exists>this' tr.
               runAsync (methods env) env n this0 = Some (Resolved None, this', tr)
             \<and> last tr = ConsoleError e \<and> FinalizeAsync \<notin> set tr
             \<and> variant this' = v \<and> (variant this0 \<noteq> Base \<longrightarrow> \<not> released (variant this'))"
    unfolding runAsync_execute_failed [OF assms a]
    using held by (simp add: FinalizeAsync_notin_iterations image_iff)
qed

text \<open>
  An instance of both cases on the page whose second inference call fails: a run of one
  iteration succeeds and releases the runner; a run of four fails in its second
  iteration and keeps it.
\<close>

theorem finalize_only_after_success_witness:
  "h_setupAsync (methods failing_run_env)
        (variant (new_WebDNNBenchmark ''WebDNN(WebGPU)'' ''webgpu'' False))
      = (Resolved (), WebDNN \<lparr>backend = ''webgpu'', flagOptimized = False, runner = Some 1\<rparr>,
         [''Model: resnet50''])
   \<and> failure (h_executeSingleAsync (methods failing_run_env) 0
           (WebDNN \<lparr>backend = ''webgpu'', flagOptimized = False, runner = Some 1\<rparr>)) = None
   \<and> (\<exists>s this' tr.
         runAsync (methods failing_run_env) failing_run_env (Num (real (1::nat)))
           (new_WebDNNBenchmark ''WebDNN(WebGPU)'' ''webgpu'' False)
           = Some (Resolved (Some s), this', tr)
       \<and> FinalizeAsync \<in> set tr \<and> released (variant this'))
   \<and> num_less (Num (real (1::nat))) (Num 4)
   \<and> failure (h_executeSingleAsync (methods failing_run_env) 1
           (WebDNN \<lparr>backend = ''webgpu'', flagOptimized = False, runner = Some 1\<rparr>))
        = Some (Error ''device lost'')
   \<and> (\<exists>this' tr.
         runAsync (methods failing_run_env) failing_run_env (Num 4)
           (new_WebDNNBenchmark ''WebDNN(WebGPU)'' ''webgpu'' False)
           = Some (Resolved None, this', tr)
       \<and> last tr = ConsoleError (Error ''device lost'') \<and> FinalizeAsync \<notin> set tr
       \<and> variant this' = WebDNN \<lparr>backend = ''webgpu'', flagOptimized = False, runner = Some 1\<rparr>
       \<and> \<not> released (variant this'))"
proof -
  let ?b = "new_WebDNNBenchmark ''WebDNN(WebGPU)'' ''webgpu'' False"
  let ?v1 = "WebDNN \<lparr>backend = ''webgpu'', flagOptimized = False, runner = Some 1\<rparr>"
  have st: "h_setupAsync (methods failing_run_env) (variant ?b)
              = (Resolved (), ?v1, [''Model: resnet50''])"
    by (simp add: example_defs hook_defs)
  have e0: "failure (h_executeSingleAsync (methods failing_run_env) 0 ?v1) = None"
    and e1: "failure (h_executeSingleAsync (methods failing_run_env) 1 ?v1)
               = Some (Error ''device lost'')"
    and lt: "num_less (Num (real (1::nat))) (Num 4)"
    and nb: "variant ?b \<noteq> Base"
    by (simp_all add: example_defs hook_defs)
  from e0 have all: "\<forall>j<1. failure (h_executeSingleAsync (methods failing_run_env) j ?v1) = None"
    by simp
  from finalize_only_after_success [OF st, of 1 1 "Num 4" "Error ''device lost''"]
    st e0 e1 lt nb all
  show ?thesis by (simp del: One_nat_def)
qed

section \<open>The claims about the variants and the page\<close>

text \<open>
  C7. When the selected model is not \<open>resnet50\<close>, a run of the deeplearn.js variant ends in
  setup: the only events are the call of setup, the log of the selected model and the
  report of the error \<open>Only ResNet50 is supported in benchmark of deeplearn.js\<close>. No
  execution is timed, and the list of samples is empty. This holds for every iteration
  count.
\<close>

theorem deeplearn_unsupported_model_fails_fast:
  assumes "fst (getSelectedModel env) \<noteq> ''resnet50''"
    and "variant this0 = DeepLearnJS f"
  shows "runAsync (methods env) env n this0 =
           Some (Resolved None,
                 this0\<lparr>numIteration := n, results := []\<rparr>,
                 [SetupAsync, ConsoleLog (''Model: '' @ fst (getSelectedModel env)),
                  ConsoleError (Error ''Only ResNet50 is supported in benchmark of deeplearn.js'')])"
proof -
  have "h_setupAsync (methods env) (variant this0) =
          (Rejected (Error ''Only ResNet50 is supported in benchmark of deeplearn.js''),
           DeepLearnJS f, [''Model: '' @ fst (getSelectedModel env)])"
    using assms
    by (simp add: methods_def DeepLearnJSBenchmark_setupAsync_def getSelectedModel_def Let_def)
  from runAsync_setup_rejected [OF this, of env n] assms(2) show ?thesis
    by simp
qed

text \<open>An instance: \<open>vgg16\<close> is selected and the CPU variant of deeplearn.js is run.\<close>

theorem deeplearn_unsupported_model_fails_fast_witness:
  "fst (getSelectedModel vgg16_env) \<noteq> ''resnet50''
   \<and> variant (new_DeepLearnJSBenchmark ''deeplearn.js(CPU)'' False)
       = DeepLearnJS \<lparr>flagUsingGPU = False, session = None, feeds = None, math = None,
                       y_field = None\<rparr>
   \<and> runAsync (methods vgg16_env) vgg16_env (Num 4)
         (new_DeepLearnJSBenchmark ''deeplearn.js(CPU)'' False)
       = Some (Resolved None,
               (new_DeepLearnJSBenchmark ''deeplearn.js(CPU)'' False)
                 \<lparr>numIteration := Num 4, results := []\<rparr>,
               [SetupAsync, ConsoleLog ''Model: vgg16'',
                ConsoleError (Error ''Only ResNet50 is supported in benchmark of deeplearn.js'')])"
proof -
  have m: "fst (getSelectedModel vgg16_env) = ''vgg16''"
    by (simp add: getSelectedModel_def vgg16_env_def page_env_def Let_def)
  then have ne: "fst (getSelectedModel vgg16_env) \<noteq> ''resnet50''"
    by simp
  have v: "variant (new_DeepLearnJSBenchmark ''deeplearn.js(CPU)'' False)
       = DeepLearnJS \<lparr>flagUsingGPU = False, session = None, feeds = None, math = None,
                       y_field = None\<rparr>"
    by (simp add: example_defs)
  from deeplearn_unsupported_model_fails_fast [OF ne v, of "Num 4"] ne v
  show ?thesis by (simp add: m)
qed

text \<open>
  C8. \<open>setupAsync\<close> of a WebDNN variant constructed with backend \<open>be\<close> and optimized flag
  \<open>opt\<close> calls \<open>WebDNN.load\<close> once, with the URL \<open>./output/webdnn/\<close>, the selected model,
  and \<open>/optimized\<close> when the flag is set, \<open>/non_optimized\<close> when it is not, and with the
  backend order that holds \<open>be\<close> alone; it rejects when the load rejects and stores the
  runner when the load resolves. The display name plays no part, so two constructions
  with the same backend and flag pass the same URL and backend order on the same
  selection of the model and behave alike.
\<close>

theorem WebDNN_setup_loads_selected_artifact:
  "h_setupAsync (methods env) (variant (new_WebDNNBenchmark nm be opt))
     = (case WebDNN_load env
               (''./output/webdnn/'' @ fst (getSelectedModel env)
                  @ (if opt then ''/optimized'' else ''/non_optimized''))
               [be] of
          Inl e \<Rightarrow> (Rejected e,
                     WebDNN \<lparr>backend = be, flagOptimized = opt, runner = None\<rparr>,
                     snd (getSelectedModel env))
        | Inr r \<Rightarrow> (Resolved (),
                     WebDNN \<lparr>backend = be, flagOptimized = opt, runner = Some r\<rparr>,
                     snd (getSelectedModel env)))
   \<and> h_setupAsync (methods env) (variant (new_WebDNNBenchmark nm be opt))
     = h_setupAsync (methods env) (variant (new_WebDNNBenchmark nm' be opt))
   \<and> WebDNN_load_url m opt
     = ''./output/webdnn/'' @ m @ (if opt then ''/optimized'' else ''/non_optimized'')
   \<and> WebDNN_backendOrder \<lparr>backend = be, flagOptimized = opt, runner = r0\<rparr> = [be]"
  by (simp add: methods_def new_WebDNNBenchmark_def new_BaseBenchmark_def
      WebDNNBenchmark_setupAsync_def WebDNN_load_url_def WebDNN_backendOrder_def
      split: prod.splits sum.splits)

text \<open>
  An instance with the loader that finds only the optimized \<open>resnet50\<close> for \<open>webgl\<close>: the
  optimized WebGL variant loads under either display name, while the variant that is not
  optimized and the optimized WebGPU variant ask for something else and are rejected.
\<close>

theorem WebDNN_setup_loads_selected_artifact_witness:
  "h_setupAsync (methods probe_load_env)
       (variant (new_WebDNNBenchmark ''WebDNN(WebGL) + Optimize'' ''webgl'' True))
     = (Resolved (), WebDNN \<lparr>backend = ''webgl'', flagOptimized = True, runner = Some 1\<rparr>,
        [''Model: resnet50''])
   \<and> h_setupAsync (methods probe_load_env)
       (variant (new_WebDNNBenchmark ''second construction'' ''webgl'' True))
     = (Resolved (), WebDNN \<lparr>backend = ''webgl'', flagOptimized = True, runner = Some 1\<rparr>,
        [''Model: resnet50''])
   \<and> h_setupAsync (methods probe_load_env)
       (variant (new_WebDNNBenchmark ''WebDNN(WebGL)'' ''webgl'' False))
     = (Rejected (Error ''404''),
        WebDNN \<lparr>backend = ''webgl'', flagOptimized = False, runner = None\<rparr>,
        [''Model: resnet50''])
   \<and> h_setupAsync (methods probe_load_env)
       (variant (new_WebDNNBenchmark ''WebDNN(WebGPU) + Optimize'' ''webgpu'' True))
     = (Rejected (Error ''404''),
        WebDNN \<lparr>backend = ''webgpu'', flagOptimized = True, runner = None\<rparr>,
        [''Model: resnet50''])"
proof -
  have sel: "getSelectedModel probe_load_env = (''resnet50'', [''Model: resnet50''])"
    by (simp add: getSelectedModel_def Let_def probe_load_env_def page_env_def)
  have ld: "WebDNN_load probe_load_env =
              (\<lambda>url order. if url = ''./output/webdnn/resnet50/optimized'' \<and> order = [''webgl'']
                            then Inr 1 else Inl (Error ''404''))"
    by (simp add: probe_load_env_def page_env_def)
  from WebDNN_setup_loads_selected_artifact
         [of probe_load_env "''WebDNN(WebGL) + Optimize''" "''webgl''" True]
       WebDNN_setup_loads_selected_artifact
         [of probe_load_env "''second construction''" "''webgl''" True]
       WebDNN_setup_loads_selected_artifact
         [of probe_load_env "''WebDNN(WebGL)''" "''webgl''" False]
       WebDNN_setup_loads_selected_artifact
         [of probe_load_env "''WebDNN(WebGPU) + Optimize''" "''webgpu''" True]
  show ?thesis
    by (simp add: sel ld)
qed

text \<open>
  C9. The claim is that \<open>run\<close> passes to the runner the entered number plus one.
  \<open>iterations env\<close> is the result of \<open>Number\<close> on the text of the field, and the addition
  is one of binary64: for the entry \<open>9007199254740992\<close> the sum \<open>9007199254740993\<close> is
  not a binary64 value and rounds to the even neighbour, the entry itself. \<open>run\<close> then
  passes \<open>9007199254740992\<close>, not the entry plus one.
\<close>

theorem run_iteration_count_counterexample:
  "iterations large_iterations_env = Num 9007199254740992
   \<and> run_numIteration large_iterations_env = Num 9007199254740992
   \<and> run_numIteration large_iterations_env \<noteq> Num (9007199254740992 + 1)"
  by (simp add: run_numIteration_def Let_def large_iterations_env_def page_env_def
      round64_two_53_plus_one)

text \<open>
  C9, as amended. When the entered value is not a number, \<open>run\<close> passes five. Otherwise it
  passes the binary64 sum of the entered number and one, which for a whole number \<open>m\<close>
  below \<open>2^53\<close> is \<open>m + 1\<close>. When the count passed is the whole number \<open>N\<close>, the selected
  index has a variant, its setup resolves and its \<open>N\<close> executions succeed, \<open>run\<close> returns,
  the single execution was called \<open>N\<close> times, and the variant holds the count \<open>N\<close> and a
  summary of \<open>N - 1\<close> samples: with an entry \<open>m\<close> there is one execution more than the \<open>m\<close>
  samples reported. Whatever the outcome of a run that returns, the selected variant
  holds the count that \<open>run\<close> computed.
\<close>

theorem run_iteration_count_and_executions:
  "(iterations env = NaN \<longrightarrow> run_numIteration env = Num 5)
   \<and> (iterations env \<noteq> NaN \<longrightarrow> run_numIteration env = num_add (iterations env) (Num 1))
   \<and> (iterations env = Num (real m) \<and> m < 2 ^ 53 \<longrightarrow>
        run_numIteration env = Num (real (m + 1)))
   \<and> (array_index benchmarks (run_benchmark_id env) = Some k
        \<and> run_numIteration env = Num (real N)
        \<and> h_setupAsync (methods env) (variant (benchmarks ! k)) = (Resolved (), v, msgs)
        \<and> (\<forall>j<N. failure (h_executeSingleAsync (methods env) j v) = None) \<longrightarrow>
      (\<exists>this' tr s.
           run env benchmarks = Some (Resolved (), benchmarks[k := this'], tr)
         \<and> count_list tr ExecuteSingleAsync = N
         \<and> numIteration this' = Num (real N)
         \<and> summary this' = Some s
         \<and> length (summary_results s) = N - 1))
   \<and> (array_index benchmarks (run_benchmark_id env) = Some k
        \<and> run env benchmarks = Some (c, benchmarks', tr') \<longrightarrow>
      numIteration (benchmarks' ! k) = run_numIteration env)"
proof (intro conjI impI)
  show "run_numIteration env = Num 5" if "iterations env = NaN"
    using that by (simp add: run_numIteration_def)
  show "run_numIteration env = num_add (iterations env) (Num 1)" if "iterations env \<noteq> NaN"
    using that
    by (cases "iterations env") (simp_all add: run_numIteration_def Let_def)
  show "run_numIteration env = Num (real (m + 1))"
    if "iterations env = Num (real m) \<and> m < 2 ^ 53"
    using that round64_succ [of m] by (simp add: run_numIteration_def Let_def)
  show "\<exists>this' tr s.
           run env benchmarks = Some (Resolved (), benchmarks[k := this'], tr)
         \<and> count_list tr ExecuteSingleAsync = N
         \<and> numIteration this' = Num (real N)
         \<and> summary this' = Some s
         \<and> length (summary_results s) = N - 1"
    if a: "array_index benchmarks (run_benchmark_id env) = Some k
        \<and> run_numIteration env = Num (real N)
        \<and> h_setupAsync (methods env) (variant (benchmarks ! k)) = (Resolved (), v, msgs)
        \<and> (\<forall>j<N. failure (h_executeSingleAsync (methods env) j v) = None)"
  proof -
    from a have ai: "array_index benchmarks (run_benchmark_id env) = Some k"
      and n: "run_numIteration env = Num (real N)"
      and st: "h_setupAsync (methods env) (variant (benchmarks ! k)) = (Resolved (), v, msgs)"
      and ex: "\<forall>j<N. failure (h_executeSingleAsync (methods env) j v) = None"
      by blast+
    show ?thesis by (rule run_success [OF ai n st ex])
  qed
  show "numIteration (benchmarks' ! k) = run_numIteration env"
    if a: "array_index benchmarks (run_benchmark_id env) = Some k
        \<and> run env benchmarks = Some (c, benchmarks', tr')"
  proof -
    from a have k: "k < length benchmarks"
      by (auto simp: array_index_def split: number.splits if_splits)
    from a have ai: "array_index benchmarks (run_benchmark_id env) = Some k"
      and r: "run env benchmarks = Some (c, benchmarks', tr')"
      by simp_all
    have unfolded: "run env benchmarks =
        (case run_promise_chain (methods env) env (run_numIteration env) (benchmarks ! k) of
           None \<Rightarrow> None
         | Some (this, tr) \<Rightarrow>
             Some (Resolved (), benchmarks[k := this],
                   ConsoleLog (''Benchmark '' @ name (benchmarks ! k) @ '' start'') # tr))"
      by (simp add: run_def Let_def ai)
    obtain this' tr'' where
      chain: "run_promise_chain (methods env) env (run_numIteration env) (benchmarks ! k)
                = Some (this', tr'')"
      and bs: "benchmarks' = benchmarks[k := this']"
    proof (cases "run_promise_chain (methods env) env (run_numIteration env) (benchmarks ! k)")
      case None
      with r unfolded show ?thesis by simp
    next
      case (Some p)
      with r unfolded that show ?thesis by (cases p) simp
    qed
    from chain obtain c' tr3 where
      "runAsync (methods env) env (run_numIteration env) (benchmarks ! k) = Some (c', this', tr3)"
      by (auto simp: run_promise_chain_def split: option.splits)
    from runAsync_numIteration [OF this] bs k show ?thesis by simp
  qed
qed

text \<open>
  Instances, all for the first variant of the page. A field that holds no number gives
  five, and the run has five executions and four samples. A field that holds \<open>3\<close> gives
  four, and the run has four executions and three samples. A run whose artifact cannot
  be loaded leaves four in the variant.
\<close>

theorem run_iteration_count_and_executions_witness:
  "iterations unparsable_iterations_env = NaN
   \<and> run_numIteration unparsable_iterations_env = Num 5
   \<and> iterations page_env = Num (real 3)
   \<and> (3::nat) < 2 ^ 53
   \<and> run_numIteration page_env = Num 4
   \<and> array_index (initial_benchmarks True) (run_benchmark_id page_env) = Some 0
   \<and> h_setupAsync (methods page_env) (variant (initial_benchmarks True ! 0))
       = (Resolved (), WebDNN \<lparr>backend = ''webgpu'', flagOptimized = False, runner = Some 1\<rparr>,
          [''Model: resnet50''])
   \<and> failure (h_executeSingleAsync (methods page_env) 0
                  (WebDNN \<lparr>backend = ''webgpu'', flagOptimized = False, runner = Some 1\<rparr>)) = None
   \<and> failure (h_executeSingleAsync (methods page_env) 1
                  (WebDNN \<lparr>backend = ''webgpu'', flagOptimized = False, runner = Some 1\<rparr>)) = None
   \<and> failure (h_executeSingleAsync (methods page_env) 2
                  (WebDNN \<lparr>backend = ''webgpu'', flagOptimized = False, runner = Some 1\<rparr>)) = None
   \<and> failure (h_executeSingleAsync (methods page_env) 3
                  (WebDNN \<lparr>backend = ''webgpu'', flagOptimized = False, runner = Some 1\<rparr>)) = None
   \<and> (\<exists>this' tr s.
         run page_env (initial_benchmarks True)
           = Some (Resolved (), (initial_benchmarks True)[0 := this'], tr)
       \<and> count_list tr ExecuteSingleAsync = 4
       \<and> numIteration this' = Num 4
       \<and> summary this' = Some s
       \<and> length (summary_results s) = 3)
   \<and> array_index (initial_benchmarks True) (run_benchmark_id unparsable_iterations_env) = Some 0
   \<and> h_setupAsync (methods unparsable_iterations_env) (variant (initial_benchmarks True ! 0))
       = (Resolved (), WebDNN \<lparr>backend = ''webgpu'', flagOptimized = False, runner = Some 1\<rparr>,
          [''Model: resnet50''])
   \<and> failure (h_executeSingleAsync (methods unparsable_iterations_env) 0
                  (WebDNN \<lparr>backend = ''webgpu'', flagOptimized = False, runner = Some 1\<rparr>)) = None
   \<and> failure (h_executeSingleAsync (methods unparsable_iterations_env) 1
                  (WebDNN \<lparr>backend = ''webgpu'', flagOptimized = False, runner = Some 1\<rparr>)) = None
   \<and> failure (h_executeSingleAsync (methods unparsable_iterations_env) 2
                  (WebDNN \<lparr>backend = ''webgpu'', flagOptimized = False, runner = Some 1\<rparr>)) = None
   \<and> failure (h_executeSingleAsync (methods unparsable_iterations_env) 3
                  (WebDNN \<lparr>backend = ''webgpu'', flagOptimized = False, runner = Some 1\<rparr>)) = None
   \<and> failure (h_executeSingleAsync (methods unparsable_iterations_env) 4
                  (WebDNN \<lparr>backend = ''webgpu'', flagOptimized = False, runner = Some 1\<rparr>)) = None
   \<and> (\<exists>this' tr s.
         run unparsable_iterations_env (initial_benchmarks True)
           = Some (Resolved (), (initial_benchmarks True)[0 := this'], tr)
       \<and> count_list tr ExecuteSingleAsync = 5
       \<and> numIteration this' = Num 5
       \<and> summary this' = Some s
       \<and> length (summary_results s) = 4)
   \<and> array_index (initial_benchmarks True) (run_benchmark_id failing_load_env) = Some 0
   \<and> run failing_load_env (initial_benchmarks True)
       = Some (Resolved (),
               (initial_benchmarks True)
                 [0 := (new_WebDNNBenchmark ''WebDNN(WebGPU)'' ''webgpu'' False)
                         \<lparr>numIteration := Num 4, results := []\<rparr>],
               [ConsoleLog ''Benchmark WebDNN(WebGPU) start'', SetupAsync,
                ConsoleLog ''Model: resnet50'', ConsoleError (Error ''404''),
                ConsoleError TypeError])
   \<and> numIteration (((initial_benchmarks True)
                 [0 := (new_WebDNNBenchmark ''WebDNN(WebGPU)'' ''webgpu'' False)
                         \<lparr>numIteration := Num 4, results := []\<rparr>]) ! 0)
       = run_numIteration failing_load_env"
proof -
  let ?b = "new_WebDNNBenchmark ''WebDNN(WebGPU)'' ''webgpu'' False"
  let ?v = "WebDNN \<lparr>backend = ''webgpu'', flagOptimized = False, runner = Some 1\<rparr>"
  let ?bs = "initial_benchmarks True"
  let ?bs' = "?bs[0 := ?b\<lparr>numIteration := Num 4, results := []\<rparr>]"
  let ?tr = "[ConsoleLog ''Benchmark WebDNN(WebGPU) start'', SetupAsync,
                ConsoleLog ''Model: resnet50'', ConsoleError (Error ''404''),
                ConsoleError TypeError]"
  have i1: "iterations unparsable_iterations_env = NaN"
    and i2: "iterations page_env = Num (real 3)"
    and i3: "(3::nat) < 2 ^ 53"
    by (simp_all add: example_defs)
  have hd: "?bs ! 0 = ?b" and len: "0 < length ?bs"
    by (simp_all add: initial_benchmarks_def)
  have id: "run_benchmark_id page_env = Num 0"
    "run_benchmark_id unparsable_iterations_env = Num 0"
    "run_benchmark_id failing_load_env = Num 0"
    by (simp_all add: run_benchmark_id_def example_defs)
  have ai: "array_index ?bs (run_benchmark_id page_env) = Some 0"
    "array_index ?bs (run_benchmark_id unparsable_iterations_env) = Some 0"
    "array_index ?bs (run_benchmark_id failing_load_env) = Some 0"
    using len by (simp_all add: id array_index_def)
  have st: "h_setupAsync (methods page_env) (variant (?bs ! 0)) = (Resolved (), ?v, [''Model: resnet50''])"
    "h_setupAsync (methods unparsable_iterations_env) (variant (?bs ! 0))
       = (Resolved (), ?v, [''Model: resnet50''])"
    unfolding hd by (simp_all add: example_defs hook_defs)
  have ex4: "\<forall>j<4. failure (h_executeSingleAsync (methods page_env) j ?v) = None"
    and ex5: "\<forall>j<5. failure (h_executeSingleAsync (methods unparsable_iterations_env) j ?v) = None"
    by (simp_all add: example_defs hook_defs)
  from ex4 have each4:
    "failure (h_executeSingleAsync (methods page_env) 0 ?v) = None"
    "failure (h_executeSingleAsync (methods page_env) 1 ?v) = None"
    "failure (h_executeSingleAsync (methods page_env) 2 ?v) = None"
    "failure (h_executeSingleAsync (methods page_env) 3 ?v) = None"
    by simp_all
  from ex5 have each5:
    "failure (h_executeSingleAsync (methods unparsable_iterations_env) 0 ?v) = None"
    "failure (h_executeSingleAsync (methods unparsable_iterations_env) 1 ?v) = None"
    "failure (h_executeSingleAsync (methods unparsable_iterations_env) 2 ?v) = None"
    "failure (h_executeSingleAsync (methods unparsable_iterations_env) 3 ?v) = None"
    "failure (h_executeSingleAsync (methods unparsable_iterations_env) 4 ?v) = None"
    by simp_all
  note page = run_iteration_count_and_executions
      [of page_env 3 ?bs 0 4 ?v "[''Model: resnet50'']" "Resolved ()" ?bs' ?tr]
  note unparsable = run_iteration_count_and_executions
      [of unparsable_iterations_env 3 ?bs 0 5 ?v "[''Model: resnet50'']" "Resolved ()" ?bs' ?tr]
  note failing = run_iteration_count_and_executions
      [of failing_load_env 3 ?bs 0 4 ?v "[''Model: resnet50'']" "Resolved ()" ?bs' ?tr]
  from unparsable i1 have n5: "run_numIteration unparsable_iterations_env = Num 5"
    by blast
  from page i2 i3 have "run_numIteration page_env = Num (real (3 + 1))"
    by blast
  then have n4: "run_numIteration page_env = Num 4"
    by simp
  from n4 have n4': "run_numIteration page_env = Num (real 4)" by simp
  from n5 have n5': "run_numIteration unparsable_iterations_env = Num (real 5)" by simp
  from page ai(1) n4' st(1) ex4
  have "\<exists>this' tr s.
         run page_env ?bs = Some (Resolved (), ?bs[0 := this'], tr)
       \<and> count_list tr ExecuteSingleAsync = 4
       \<and> numIteration this' = Num (real 4)
       \<and> summary this' = Some s
       \<and> length (summary_results s) = 4 - 1"
    by blast
  then have r4: "\<exists>this' tr s.
         run page_env ?bs = Some (Resolved (), ?bs[0 := this'], tr)
       \<and> count_list tr ExecuteSingleAsync = 4
       \<and> numIteration this' = Num 4
       \<and> summary this' = Some s
       \<and> length (summary_results s) = 3"
    by simp
  from unparsable ai(2) n5' st(2) ex5
  have "\<exists>this' tr s.
         run unparsable_iterations_env ?bs = Some (Resolved (), ?bs[0 := this'], tr)
       \<and> count_list tr ExecuteSingleAsync = 5
       \<and> numIteration this' = Num (real 5)
       \<and> summary this' = Some s
       \<and> length (summary_results s) = 5 - 1"
    by blast
  then have r5: "\<exists>this' tr s.
         run unparsable_iterations_env ?bs = Some (Resolved (), ?bs[0 := this'], tr)
       \<and> count_list tr ExecuteSingleAsync = 5
       \<and> numIteration this' = Num 5
       \<and> summary this' = Some s
       \<and> length (summary_results s) = 4"
    by simp
  have nf: "run_numIteration failing_load_env = Num 4"
    using n4 by (simp add: run_numIteration_def example_defs)
  have stf: "h_setupAsync (methods failing_load_env) (variant ?b)
              = (Rejected (Error ''404''), variant ?b, [''Model: resnet50''])"
    by (simp add: example_defs hook_defs)
  have nm: "name ?b = ''WebDNN(WebGPU)''"
    by (simp add: example_defs)
  have r: "run failing_load_env ?bs = Some (Resolved (), ?bs', ?tr)"
    by (simp add: run_def Let_def ai nf hd nm run_promise_chain_def summaryHandler_def
        runAsync_setup_rejected [OF stf])
  from failing ai(3) r have w3: "numIteration (?bs' ! 0) = run_numIteration failing_load_env"
    by blast
  from i1 n5 i2 i3 n4 ai(1) st(1) each4 r4 ai(2) st(2) each5 r5 ai(3) r w3
  show ?thesis
    by (intro conjI)
qed

end
